theory Spec2Isabelle
  imports Complex_Main "HOL-Library.Word"
begin

section \<open>Data model (package models)\<close>

text \<open>
  Conventions of the embedding.
  \<^item> Go's \<open>int\<close> is modelled by \<open>int\<close>; where the source does arithmetic on it the
    64-bit wrap-around and Go's truncating division are written out (\<open>wrap64\<close>, \<open>quot\<close>).
  \<^item> \<open>uint64\<close> counters are \<open>64 word\<close>.
  \<^item> A finite \<open>float64\<close> value is modelled by the real number it denotes. Every
    floating-point operation of the source (a conversion from an integer, \<open>+\<close>, \<open>*\<close>,
    \<open>/\<close>) returns the exact result rounded to the nearest binary64 number, ties to
    even (\<open>float64_round\<close>). Infinities, NaN and the bounds of the exponent are not
    modelled.
  \<^item> A \<open>time.Time\<close> is an instant in nanoseconds on the clock that \<open>Sub\<close> compares,
    counted from the zero \<open>Time\<close>; a call of \<open>time.Now()\<close> is an explicit argument
    \<open>now\<close>.
  \<^item> A run-time panic is a value of type \<open>panic\<close>, returned as \<open>Inl\<close>.
\<close>

type_synonym float64 = real
type_synonym uint64 = "64 word"
type_synonym Time = int
type_synonym Duration = int

datatype panic = MakesliceCapOutOfRange | NegativeRepeatCount | RepeatOverflow

record CPUInfo =
  Cores :: int
  Usage :: "float64 list"
  Total :: float64
  Timestamp :: Time

record SwapInfo =
  Total :: uint64
  Used :: uint64
  Free :: uint64

record MemoryInfo =
  Total :: uint64
  Used :: uint64
  Available :: uint64
  Swap :: SwapInfo
  Timestamp :: Time

record DiskInfo =
  Device :: string
  Mountpoint :: string
  Filesystem :: string
  Total :: uint64
  Used :: uint64
  Available :: uint64
  UsedPercent :: float64

record NetworkInfo =
  Interface :: string
  BytesSent :: uint64
  BytesRecv :: uint64
  PacketsSent :: uint64
  PacketsRecv :: uint64
  Timestamp :: Time

record NetworkStats =
  SendRate :: float64
  RecvRate :: float64

datatype ErrorType =
  SystemAccessError | DataCollectionError | RenderError | PermissionError | TemporaryError

text \<open>\<open>SystemError\<close>; \<open>ErrorMsg\<close> is the same struct under another name. The wrapped
  \<open>Original\<close> error is kept as its text.\<close>

record SystemError =
  Type :: ErrorType
  Message :: string
  Component :: string
  Timestamp :: Time
  Original :: "string option"


section \<open>Go integer arithmetic\<close>

definition wrap64 :: "int \<Rightarrow> int" where
  "wrap64 x = (x + 2 ^ 63) mod 2 ^ 64 - 2 ^ 63"

text \<open>Go's integer division truncates towards zero (the divisors in the source are
  non-zero constants).\<close>

definition quot :: "int \<Rightarrow> int \<Rightarrow> int" where
  "quot a b = sgn a * sgn b * (\<bar>a\<bar> div \<bar>b\<bar>)"

text \<open>The remainder \<open>a % b\<close> that goes with it.\<close>

definition rem :: "int \<Rightarrow> int \<Rightarrow> int" where
  "rem a b = a - quot a b * b"

section \<open>Floating-point arithmetic (\<open>float64\<close>)\<close>

text \<open>\<open>bitlen n\<close> is the number of binary digits of \<open>n\<close>.\<close>

fun bitlen :: "nat \<Rightarrow> nat" where
  "bitlen n = (if n = 0 then 0 else Suc (bitlen (n div 2)))"

declare bitlen.simps [simp del]

text \<open>\<open>binexp y\<close> is the binary exponent of a positive real \<open>y\<close>: the integer \<open>e\<close> with
  \<open>2 powi e \<le> y < 2 powi (e + 1)\<close>.\<close>

definition binexp :: "real \<Rightarrow> int" where
  "binexp y = (if 1 \<le> y then int (bitlen (nat \<lfloor>y\<rfloor>)) - 1
               else - int (bitlen (nat (\<lceil>1 / y\<rceil> - 1))))"

text \<open>Rounding to the nearest integer, a tie to the even one.\<close>

definition roundEven :: "real \<Rightarrow> int" where
  "roundEven y =
     (let f = \<lfloor>y\<rfloor>; d = y - of_int f
      in if d < 1 / 2 then f else if 1 / 2 < d then f + 1 else if even f then f else f + 1)"

text \<open>\<open>scale2 x e\<close> is \<open>x * 2 powi e\<close>.\<close>

definition scale2 :: "real \<Rightarrow> int \<Rightarrow> real" where
  "scale2 x e = (if 0 \<le> e then x * 2 ^ nat e else x / 2 ^ nat (- e))"

text \<open>The binary64 number nearest to \<open>x\<close>: the significand of \<open>x\<close>, scaled to 53 binary
  digits, is rounded to an integer. The exponent is not bounded, so the result is that of
  the machine for every \<open>x\<close> whose magnitude lies in the normal range of binary64
  (from \<open>2 powi (- 1022)\<close> to below \<open>2 powi 1024\<close>) and for 0.\<close>

definition float64_round :: "real \<Rightarrow> float64" where
  "float64_round x =
     (if x = 0 then 0
      else (let e = binexp \<bar>x\<bar> - 52
            in sgn x * scale2 (of_int (roundEven (scale2 \<bar>x\<bar> (- e)))) e))"

text \<open>The conversions \<open>float64(n)\<close> of a \<open>uint64\<close> and of an \<open>int\<close>, and the operators
  \<open>+\<close>, \<open>*\<close> and \<open>/\<close> on \<open>float64\<close>. Every division of the source that is modelled has
  a divisor that is not 0.\<close>

definition float64_of_uint64 :: "uint64 \<Rightarrow> float64" where
  "float64_of_uint64 n = float64_round (real (unat n))"

definition float64_of_int :: "int \<Rightarrow> float64" where
  "float64_of_int n = float64_round (real_of_int n)"

definition fadd :: "float64 \<Rightarrow> float64 \<Rightarrow> float64" where
  "fadd x y = float64_round (x + y)"

definition fmul :: "float64 \<Rightarrow> float64 \<Rightarrow> float64" where
  "fmul x y = float64_round (x * y)"

definition fdiv :: "float64 \<Rightarrow> float64 \<Rightarrow> float64" where
  "fdiv x y = float64_round (x / y)"

section \<open>Style manager (\<open>StyleManager\<close>, ui/styles.go)\<close>

record ColorScheme =
  Normal :: string
  Warning :: string
  Critical :: string
  Header :: string
  Focused :: string
  Unfocused :: string
  Text :: string
  Muted :: string
  Background :: string

definition DefaultColorScheme :: ColorScheme where
  "DefaultColorScheme =
     \<lparr>Normal = ''2'', Warning = ''3'', Critical = ''1'', Header = ''6'', Focused = ''6'',
      Unfocused = ''8'', Text = ''15'', Muted = ''8'', Background = ''0''\<rparr>"

record StyleManager =
  colors :: ColorScheme
  width :: int
  height :: int

definition NewStyleManager :: StyleManager where
  "NewStyleManager = \<lparr>colors = DefaultColorScheme, width = 80, height = 24\<rparr>"

definition SetDimensions :: "StyleManager \<Rightarrow> int \<Rightarrow> int \<Rightarrow> StyleManager" where
  "SetDimensions s w h = s\<lparr>StyleManager.width := w, StyleManager.height := h\<rparr>"

definition CalculateComponentDimensions :: "StyleManager \<Rightarrow> int \<times> int" where
  "CalculateComponentDimensions s =
     (let availableWidth = wrap64 (StyleManager.width s - 6);
          availableHeight = wrap64 (StyleManager.height s - 6);
          componentWidth = quot availableWidth 2;
          componentHeight = quot availableHeight 2;
          componentWidth = (if componentWidth < 30 then 30 else componentWidth);
          componentHeight = (if componentHeight < 8 then 8 else componentHeight)
      in (componentWidth, componentHeight))"

definition IsSmallTerminal :: "StyleManager \<Rightarrow> bool" where
  "IsSmallTerminal s = (StyleManager.width s < 80 \<or> StyleManager.height s < 24)"

definition GetMinimumDimensions :: "StyleManager \<Rightarrow> int \<times> int" where
  "GetMinimumDimensions s = (80, 24)"

definition GetProgressBarWidth :: "StyleManager \<Rightarrow> int \<Rightarrow> int \<Rightarrow> int" where
  "GetProgressBarWidth s componentWidth labelWidth =
     (let barWidth = wrap64 (wrap64 (componentWidth - labelWidth) - 10)
      in if barWidth < 10 then 10 else barWidth)"


section \<open>Messages and commands\<close>

text \<open>The messages \<open>MainModel.Update\<close> switches on; \<open>OtherMsg\<close> stands for a message of
  any other dynamic type. A \<open>tea.KeyMsg\<close> is represented by its \<open>String()\<close>.

  \<open>ErrorMsg\<close> is a message of type \<open>models.ErrorMsg\<close>. \<open>SystemErrorMsg\<close> is a message of
  type \<open>models.SystemError\<close>, the type of the errors that the collector returns
  (\<open>models.CreateSystemError\<close>). The declaration \<open>type ErrorMsg SystemError\<close> makes the two
  distinct types, so a type switch with a case for one does not select the other.\<close>

datatype Msg =
    WindowSizeMsg int int
  | KeyMsg string
  | CPUUpdateMsg CPUInfo
  | MemoryUpdateMsg MemoryInfo
  | DiskUpdateMsg "DiskInfo list"
  | NetworkUpdateMsg "NetworkInfo list"
  | TickMsg Time
  | ErrorMsg SystemError
  | SystemErrorMsg SystemError
  | OtherMsg

text \<open>A \<open>tea.Cmd\<close> is kept symbolic: \<open>CmdNil\<close> is the nil command, \<open>Batch\<close> is
  \<open>tea.Batch\<close> applied to its arguments, \<open>Tick d\<close> is \<open>tea.Tick\<close> with the closure that
  wraps the time in a \<open>TickMsg\<close>, and the four collection commands are the closures of
  \<open>collectCPUDataCmd\<close> and its siblings, which capture the model's collector. The
  collector is an interface value whose methods read the operating system; it is
  represented by an identifier and its methods are not modelled.\<close>

type_synonym Collector = nat

datatype Cmd =
    CmdNil
  | Quit
  | Batch "Cmd list"
  | Tick Duration
  | CollectCPU Collector
  | CollectMemory Collector
  | CollectDisk Collector
  | CollectNetwork Collector

section \<open>Time (package time of the standard library)\<close>

definition minDuration :: Duration where "minDuration = - (2 ^ 63)"
definition maxDuration :: Duration where "maxDuration = 2 ^ 63 - 1"

text \<open>\<open>t.Sub(u)\<close>: the difference in nanoseconds, saturated to the range of a Duration.\<close>

definition Sub :: "Time \<Rightarrow> Time \<Rightarrow> Duration" where
  "Sub t u =
     (let d = t - u
      in if d < minDuration then minDuration else if d > maxDuration then maxDuration else d)"

text \<open>\<open>d.Seconds()\<close>: \<open>sec := d / Second; nsec := d % Second;
  return float64(sec) + float64(nsec)/1e9\<close>.\<close>

definition Seconds :: "Duration \<Rightarrow> float64" where
  "Seconds d =
     (let sec = quot d 1000000000;
          nsec = rem d 1000000000
      in fadd (float64_of_int sec) (fdiv (float64_of_int nsec) 1000000000))"

section \<open>CPU component (\<open>CPUModel\<close>)\<close>

record CPUModel =
  usage :: "float64 list"
  history :: "float64 list list"
  total :: float64
  cores :: int
  maxHistory :: int
  lastUpdate :: Time
  width :: int
  height :: int
  styleManager :: StyleManager
  hasError :: bool
  errorMessage :: string
  lastError :: Time

definition NewCPUModel :: "Time \<Rightarrow> CPUModel" where
  "NewCPUModel now =
     \<lparr>usage = [], history = [], total = 0, cores = 0, maxHistory = 60, lastUpdate = now,
      width = 40, height = 10, styleManager = NewStyleManager,
      hasError = False, errorMessage = [], lastError = 0\<rparr>"

text \<open>\<open>make([]float64, 0, cap)\<close> panics when the capacity is negative or larger than the
  runtime can address (\<open>maxAlloc\<close>, \<open>2 ^ 48\<close> bytes on 64-bit Linux, 8 bytes per element).
  Running out of memory is not modelled.\<close>

definition makeslice_ok :: "int \<Rightarrow> bool" where
  "makeslice_ok cap = (0 \<le> cap \<and> cap * 8 \<le> 2 ^ 48)"

text \<open>The loop \<open>for i, usage := range m.usage\<close> of \<open>CPUModel.Update\<close>: the sample of core
  \<open>i\<close> is appended to \<open>history[i]\<close> when there is such a list, and the list loses its
  first entry when it has become longer than \<open>maxHistory\<close>.\<close>

fun appendUsage :: "float64 list list \<Rightarrow> int \<Rightarrow> nat \<Rightarrow> float64 list \<Rightarrow> float64 list list" where
  "appendUsage hist maxH i [] = hist"
| "appendUsage hist maxH i (u # us) =
     appendUsage
       (if i < length hist
        then (let h = hist ! i @ [u]
              in hist[i := (if int (length h) > maxH then drop 1 h else h)])
        else hist)
       maxH (Suc i) us"

definition CPUModel_Update :: "CPUModel \<Rightarrow> Msg \<Rightarrow> panic + (CPUModel \<times> Cmd)" where
  "CPUModel_Update m msg =
     (case msg of
        CPUUpdateMsg info \<Rightarrow>
          (let m = m\<lparr>CPUModel.hasError := False, CPUModel.errorMessage := [],
                     usage := Usage info, CPUModel.total := CPUInfo.Total info,
                     cores := Cores info, CPUModel.lastUpdate := CPUInfo.Timestamp info\<rparr>
           in if length (usage m) > 0
              then (if length (history m) = 0 \<and> \<not> makeslice_ok (maxHistory m)
                    then Inl MakesliceCapOutOfRange
                    else (let hist = (if length (history m) = 0
                                      then replicate (length (usage m)) []
                                      else history m)
                          in Inr (m\<lparr>history := appendUsage hist (maxHistory m) 0 (usage m)\<rparr>,
                                  CmdNil)))
              else Inr (m, CmdNil))
      | ErrorMsg e \<Rightarrow>
          (if Component e = ''CPU''
           then Inr (m\<lparr>CPUModel.hasError := True, CPUModel.errorMessage := Message e,
                       CPUModel.lastError := SystemError.Timestamp e\<rparr>, CmdNil)
           else Inr (m, CmdNil))
      | _ \<Rightarrow> Inr (m, CmdNil))"

definition CPUModel_SetSize :: "CPUModel \<Rightarrow> int \<Rightarrow> int \<Rightarrow> CPUModel" where
  "CPUModel_SetSize m w h = m\<lparr>CPUModel.width := w, CPUModel.height := h\<rparr>"

section \<open>Memory component (\<open>MemoryModel\<close>)\<close>

record MemoryModel =
  total :: uint64
  used :: uint64
  available :: uint64
  swap :: SwapInfo
  lastUpdate :: Time
  width :: int
  height :: int
  styleManager :: StyleManager
  hasError :: bool
  errorMessage :: string
  lastError :: Time

definition NewMemoryModel :: "Time \<Rightarrow> MemoryModel" where
  "NewMemoryModel now =
     \<lparr>total = 0, used = 0, available = 0, swap = \<lparr>SwapInfo.Total = 0, SwapInfo.Used = 0, SwapInfo.Free = 0\<rparr>,
      lastUpdate = now, width = 40, height = 8, styleManager = NewStyleManager,
      hasError = False, errorMessage = [], lastError = 0\<rparr>"

definition MemoryModel_Update :: "MemoryModel \<Rightarrow> Msg \<Rightarrow> MemoryModel \<times> Cmd" where
  "MemoryModel_Update m msg =
     (case msg of
        MemoryUpdateMsg info \<Rightarrow>
          (m\<lparr>MemoryModel.hasError := False, MemoryModel.errorMessage := [],
             MemoryModel.total := MemoryInfo.Total info, used := MemoryInfo.Used info,
             available := MemoryInfo.Available info, swap := Swap info,
             MemoryModel.lastUpdate := MemoryInfo.Timestamp info\<rparr>, CmdNil)
      | ErrorMsg e \<Rightarrow>
          (if Component e = ''Memory''
           then (m\<lparr>MemoryModel.hasError := True, MemoryModel.errorMessage := Message e,
                    MemoryModel.lastError := SystemError.Timestamp e\<rparr>, CmdNil)
           else (m, CmdNil))
      | _ \<Rightarrow> (m, CmdNil))"

definition MemoryModel_SetSize :: "MemoryModel \<Rightarrow> int \<Rightarrow> int \<Rightarrow> MemoryModel" where
  "MemoryModel_SetSize m w h = m\<lparr>MemoryModel.width := w, MemoryModel.height := h\<rparr>"

section \<open>Disk component (\<open>DiskModel\<close>)\<close>

record DiskModel =
  filesystems :: "DiskInfo list"
  lastUpdate :: Time
  width :: int
  height :: int
  styleManager :: StyleManager
  hasError :: bool
  errorMessage :: string
  lastError :: Time

definition NewDiskModel :: "Time \<Rightarrow> DiskModel" where
  "NewDiskModel now =
     \<lparr>filesystems = [], lastUpdate = now, width = 50, height = 10,
      styleManager = NewStyleManager, hasError = False, errorMessage = [], lastError = 0\<rparr>"

definition DiskModel_Update :: "DiskModel \<Rightarrow> Time \<Rightarrow> Msg \<Rightarrow> DiskModel \<times> Cmd" where
  "DiskModel_Update m now msg =
     (case msg of
        DiskUpdateMsg fs \<Rightarrow>
          (m\<lparr>DiskModel.hasError := False, DiskModel.errorMessage := [],
             filesystems := fs, DiskModel.lastUpdate := now\<rparr>, CmdNil)
      | ErrorMsg e \<Rightarrow>
          (if Component e = ''Disk''
           then (m\<lparr>DiskModel.hasError := True, DiskModel.errorMessage := Message e,
                    DiskModel.lastError := SystemError.Timestamp e\<rparr>, CmdNil)
           else (m, CmdNil))
      | _ \<Rightarrow> (m, CmdNil))"

definition DiskModel_SetSize :: "DiskModel \<Rightarrow> int \<Rightarrow> int \<Rightarrow> DiskModel" where
  "DiskModel_SetSize m w h = m\<lparr>DiskModel.width := w, DiskModel.height := h\<rparr>"


section \<open>Network component (\<open>NetworkModel\<close>, ui/network\_model.go) and the collector's rate calculation\<close>

record NetworkModel =
  interfaces :: "NetworkInfo list"
  previousData :: "NetworkInfo list"
  rates :: "string \<rightharpoonup> NetworkStats"
  lastUpdate :: Time
  width :: int
  height :: int
  styleManager :: StyleManager
  hasError :: bool
  errorMessage :: string
  lastError :: Time

definition NewNetworkModel :: "Time \<Rightarrow> NetworkModel" where
  "NewNetworkModel now =
     \<lparr>interfaces = [], previousData = [], rates = Map.empty, lastUpdate = now,
      width = 50, height = 10, styleManager = NewStyleManager,
      hasError = False, errorMessage = [], lastError = 0\<rparr>"

text \<open>The first loop of \<open>calculateRates\<close>: \<open>prevMap[prev.Interface] = prev\<close>.\<close>

fun buildPrevMap :: "(string \<rightharpoonup> NetworkInfo) \<Rightarrow> NetworkInfo list \<Rightarrow> (string \<rightharpoonup> NetworkInfo)" where
  "buildPrevMap prevMap [] = prevMap"
| "buildPrevMap prevMap (prev # previous) =
     buildPrevMap (prevMap(Interface prev \<mapsto> prev)) previous"

text \<open>The body of the second loop, for one entry \<open>curr\<close> of the current measurement
  (written \<open>cur\<close>);
  \<open>rs\<close> is the map \<open>rates\<close> built so far.\<close>

definition rateStep ::
  "(string \<rightharpoonup> NetworkInfo) \<Rightarrow> (string \<rightharpoonup> NetworkStats) \<Rightarrow> NetworkInfo \<Rightarrow> (string \<rightharpoonup> NetworkStats)" where
  "rateStep prevMap rs cur =
     (case prevMap (Interface cur) of
        None \<Rightarrow> rs
      | Some prev \<Rightarrow>
          (let timeDiff = Seconds (Sub (NetworkInfo.Timestamp cur) (NetworkInfo.Timestamp prev))
           in if timeDiff > 0
              then (let sendRate =
                          (if BytesSent cur \<ge> BytesSent prev
                           then fdiv (float64_of_uint64 (BytesSent cur - BytesSent prev)) timeDiff
                           else 0);
                        recvRate =
                          (if BytesRecv cur \<ge> BytesRecv prev
                           then fdiv (float64_of_uint64 (BytesRecv cur - BytesRecv prev)) timeDiff
                           else 0)
                    in rs(Interface cur \<mapsto> \<lparr>SendRate = sendRate, RecvRate = recvRate\<rparr>))
              else rs))"

fun rateLoop ::
  "(string \<rightharpoonup> NetworkInfo) \<Rightarrow> (string \<rightharpoonup> NetworkStats) \<Rightarrow> NetworkInfo list \<Rightarrow> (string \<rightharpoonup> NetworkStats)" where
  "rateLoop prevMap rs [] = rs"
| "rateLoop prevMap rs (cur # current) =
     rateLoop prevMap (rateStep prevMap rs cur) current"

text \<open>\<open>NetworkModel.calculateRates\<close>.\<close>

definition calculateRates :: "NetworkInfo list \<Rightarrow> NetworkInfo list \<Rightarrow> (string \<rightharpoonup> NetworkStats)" where
  "calculateRates previous current =
     (let rates = Map.empty;
          prevMap = buildPrevMap Map.empty previous
      in rateLoop prevMap rates current)"

text \<open>\<open>GopsutilCollector.CalculateNetworkRates\<close> (package services) has the same body,
  statement for statement.\<close>

definition CalculateNetworkRates :: "NetworkInfo list \<Rightarrow> NetworkInfo list \<Rightarrow> (string \<rightharpoonup> NetworkStats)" where
  "CalculateNetworkRates previous current =
     (let rates = Map.empty;
          prevMap = buildPrevMap Map.empty previous
      in rateLoop prevMap rates current)"

definition NetworkModel_Update :: "NetworkModel \<Rightarrow> Time \<Rightarrow> Msg \<Rightarrow> NetworkModel \<times> Cmd" where
  "NetworkModel_Update m now msg =
     (case msg of
        NetworkUpdateMsg ifs \<Rightarrow>
          (let m = m\<lparr>NetworkModel.hasError := False, NetworkModel.errorMessage := []\<rparr>;
               m = m\<lparr>previousData := interfaces m\<rparr>;
               m = m\<lparr>interfaces := ifs, NetworkModel.lastUpdate := now\<rparr>
           in if length (previousData m) > 0
              then (m\<lparr>rates := calculateRates (previousData m) (interfaces m)\<rparr>, CmdNil)
              else (m, CmdNil))
      | ErrorMsg e \<Rightarrow>
          (if Component e = ''Network''
           then (m\<lparr>NetworkModel.hasError := True, NetworkModel.errorMessage := Message e,
                    NetworkModel.lastError := SystemError.Timestamp e\<rparr>, CmdNil)
           else (m, CmdNil))
      | _ \<Rightarrow> (m, CmdNil))"

definition NetworkModel_SetSize :: "NetworkModel \<Rightarrow> int \<Rightarrow> int \<Rightarrow> NetworkModel" where
  "NetworkModel_SetSize m w h = m\<lparr>NetworkModel.width := w, NetworkModel.height := h\<rparr>"

section \<open>Main model (\<open>MainModel\<close>)\<close>

text \<open>\<open>FocusedComponent\<close> is an integer type with the four constants below, which are the
  only values the program stores in \<open>focused\<close>; it is modelled as an enumeration, on
  which the \<open>default\<close> branches of the four focus functions cannot be reached.\<close>

datatype FocusedComponent = FocusCPU | FocusMemory | FocusDisk | FocusNetwork

record KeyMap =
  Up :: "string list"
  Down :: "string list"
  Left :: "string list"
  Right :: "string list"
  Tab :: "string list"
  ShiftTab :: "string list"
  Quit :: "string list"
  Refresh :: "string list"
  Help :: "string list"

definition DefaultKeyMap :: KeyMap where
  "DefaultKeyMap =
     \<lparr>Up = [''up'', ''k''], Down = [''down'', ''j''], Left = [''left'', ''h''],
      Right = [''right'', ''l''], Tab = [''tab''], ShiftTab = [''shift+tab''],
      Quit = [''q'', ''ctrl+c''], Refresh = [''r''], Help = [''?'', ''h'']\<rparr>"

text \<open>The \<open>ticker\<close> field is never assigned in the source and is left out.\<close>

record MainModel =
  cpu :: CPUModel
  memory :: MemoryModel
  disk :: DiskModel
  network :: NetworkModel
  focused :: FocusedComponent
  keys :: KeyMap
  width :: int
  height :: int
  showHelp :: bool
  styleManager :: StyleManager
  collector :: Collector
  updateInterval :: Duration

definition NewMainModelWithConfig :: "Collector \<Rightarrow> Time \<Rightarrow> Duration \<Rightarrow> MainModel" where
  "NewMainModelWithConfig coll now interval =
     \<lparr>cpu = NewCPUModel now, memory = NewMemoryModel now, disk = NewDiskModel now,
      network = NewNetworkModel now, focused = FocusCPU, keys = DefaultKeyMap,
      width = 80, height = 24, showHelp = False, styleManager = NewStyleManager,
      collector = coll, updateInterval = interval\<rparr>"

definition NewMainModel :: "Collector \<Rightarrow> Time \<Rightarrow> MainModel" where
  "NewMainModel coll now = NewMainModelWithConfig coll now 1000000000"

definition updateComponentSizes :: "MainModel \<Rightarrow> MainModel" where
  "updateComponentSizes m =
     (let componentWidth = quot (wrap64 (MainModel.width m - 3)) 2;
          componentHeight = quot (wrap64 (MainModel.height m - 4)) 2
      in m\<lparr>cpu := CPUModel_SetSize (cpu m) componentWidth componentHeight,
           memory := MemoryModel_SetSize (memory m) componentWidth componentHeight,
           disk := DiskModel_SetSize (disk m) componentWidth componentHeight,
           network := NetworkModel_SetSize (network m) componentWidth componentHeight\<rparr>)"

definition nextFocus :: "MainModel \<Rightarrow> FocusedComponent" where
  "nextFocus m =
     (case focused m of
        FocusCPU \<Rightarrow> FocusMemory
      | FocusMemory \<Rightarrow> FocusDisk
      | FocusDisk \<Rightarrow> FocusNetwork
      | FocusNetwork \<Rightarrow> FocusCPU)"

definition prevFocus :: "MainModel \<Rightarrow> FocusedComponent" where
  "prevFocus m =
     (case focused m of
        FocusCPU \<Rightarrow> FocusNetwork
      | FocusMemory \<Rightarrow> FocusCPU
      | FocusDisk \<Rightarrow> FocusMemory
      | FocusNetwork \<Rightarrow> FocusDisk)"

definition downFocus :: "MainModel \<Rightarrow> FocusedComponent" where
  "downFocus m =
     (case focused m of
        FocusCPU \<Rightarrow> FocusDisk
      | FocusMemory \<Rightarrow> FocusNetwork
      | FocusDisk \<Rightarrow> FocusDisk
      | FocusNetwork \<Rightarrow> FocusNetwork)"

definition upFocus :: "MainModel \<Rightarrow> FocusedComponent" where
  "upFocus m =
     (case focused m of
        FocusCPU \<Rightarrow> FocusCPU
      | FocusMemory \<Rightarrow> FocusMemory
      | FocusDisk \<Rightarrow> FocusCPU
      | FocusNetwork \<Rightarrow> FocusMemory)"

fun containsKey :: "string list \<Rightarrow> string \<Rightarrow> bool" where
  "containsKey [] key = False"
| "containsKey (k # ks) key = (if k = key then True else containsKey ks key)"

definition SetFocusedComponent :: "MainModel \<Rightarrow> FocusedComponent \<Rightarrow> MainModel" where
  "SetFocusedComponent m focus = m\<lparr>focused := focus\<rparr>"

definition tickCmd :: "MainModel \<Rightarrow> Cmd" where
  "tickCmd m = Tick (updateInterval m)"

definition collectCPUDataCmd :: "MainModel \<Rightarrow> Cmd" where
  "collectCPUDataCmd m = CollectCPU (collector m)"

definition collectMemoryDataCmd :: "MainModel \<Rightarrow> Cmd" where
  "collectMemoryDataCmd m = CollectMemory (collector m)"

definition collectDiskDataCmd :: "MainModel \<Rightarrow> Cmd" where
  "collectDiskDataCmd m = CollectDisk (collector m)"

definition collectNetworkDataCmd :: "MainModel \<Rightarrow> Cmd" where
  "collectNetworkDataCmd m = CollectNetwork (collector m)"

definition collectAllDataCmd :: "MainModel \<Rightarrow> Cmd" where
  "collectAllDataCmd m =
     Batch [collectCPUDataCmd m, collectMemoryDataCmd m, collectDiskDataCmd m,
            collectNetworkDataCmd m]"


text \<open>\<open>MainModel.Update\<close>. The slice \<open>cmds\<close> is the argument list of the final
  \<open>tea.Batch(cmds...)\<close>; the quit key returns \<open>tea.Quit\<close> at once. A component's
  \<open>Update\<close> that panics makes the whole call panic.\<close>

definition MainModel_Update :: "MainModel \<Rightarrow> Time \<Rightarrow> Msg \<Rightarrow> panic + (MainModel \<times> Cmd)" where
  "MainModel_Update m now msg =
     (case msg of
        WindowSizeMsg w h \<Rightarrow>
          (let m = m\<lparr>MainModel.width := w, MainModel.height := h\<rparr>;
               m = m\<lparr>MainModel.styleManager :=
                       SetDimensions (MainModel.styleManager m) (MainModel.width m)
                         (MainModel.height m)\<rparr>;
               m = updateComponentSizes m
           in Inr (m, Batch []))
      | KeyMsg key \<Rightarrow>
          (if containsKey (KeyMap.Quit (keys m)) key then Inr (m, Cmd.Quit)
           else if containsKey (Help (keys m)) key
             then Inr (m\<lparr>showHelp := \<not> showHelp m\<rparr>, Batch [])
           else if containsKey (Refresh (keys m)) key
             then Inr (m, Batch [collectAllDataCmd m])
           else if containsKey (Tab (keys m)) key
             then Inr (m\<lparr>focused := nextFocus m\<rparr>, Batch [])
           else if containsKey (ShiftTab (keys m)) key
             then Inr (m\<lparr>focused := prevFocus m\<rparr>, Batch [])
           else if containsKey (Right (keys m)) key
             then Inr (m\<lparr>focused := nextFocus m\<rparr>, Batch [])
           else if containsKey (Left (keys m)) key
             then Inr (m\<lparr>focused := prevFocus m\<rparr>, Batch [])
           else if containsKey (Down (keys m)) key
             then Inr (m\<lparr>focused := downFocus m\<rparr>, Batch [])
           else if containsKey (Up (keys m)) key
             then Inr (m\<lparr>focused := upFocus m\<rparr>, Batch [])
           else Inr (m, Batch []))
      | CPUUpdateMsg info \<Rightarrow>
          (case CPUModel_Update (cpu m) msg of
             Inl p \<Rightarrow> Inl p
           | Inr (c, cmd) \<Rightarrow> Inr (m\<lparr>cpu := c\<rparr>, Batch [cmd]))
      | MemoryUpdateMsg info \<Rightarrow>
          (case MemoryModel_Update (memory m) msg of
             (c, cmd) \<Rightarrow> Inr (m\<lparr>memory := c\<rparr>, Batch [cmd]))
      | DiskUpdateMsg fs \<Rightarrow>
          (case DiskModel_Update (disk m) now msg of
             (c, cmd) \<Rightarrow> Inr (m\<lparr>disk := c\<rparr>, Batch [cmd]))
      | NetworkUpdateMsg ifs \<Rightarrow>
          (case NetworkModel_Update (network m) now msg of
             (c, cmd) \<Rightarrow> Inr (m\<lparr>network := c\<rparr>, Batch [cmd]))
      | TickMsg t \<Rightarrow> Inr (m, Batch [collectAllDataCmd m, tickCmd m])
      | ErrorMsg e \<Rightarrow>
          (if Component e = ''CPU'' then
             (case CPUModel_Update (cpu m) msg of
                Inl p \<Rightarrow> Inl p
              | Inr (c, cmd) \<Rightarrow>
                  Inr (m\<lparr>cpu := c\<rparr>, if cmd \<noteq> CmdNil then Batch [cmd] else Batch []))
           else if Component e = ''Memory'' then
             (case MemoryModel_Update (memory m) msg of
                (c, cmd) \<Rightarrow>
                  Inr (m\<lparr>memory := c\<rparr>, if cmd \<noteq> CmdNil then Batch [cmd] else Batch []))
           else if Component e = ''Disk'' then
             (case DiskModel_Update (disk m) now msg of
                (c, cmd) \<Rightarrow>
                  Inr (m\<lparr>disk := c\<rparr>, if cmd \<noteq> CmdNil then Batch [cmd] else Batch []))
           else if Component e = ''Network'' then
             (case NetworkModel_Update (network m) now msg of
                (c, cmd) \<Rightarrow>
                  Inr (m\<lparr>network := c\<rparr>, if cmd \<noteq> CmdNil then Batch [cmd] else Batch []))
           else Inr (m, Batch []))
      | SystemErrorMsg e \<Rightarrow> Inr (m, Batch [])
      | OtherMsg \<Rightarrow> Inr (m, Batch []))"

text \<open>The closures that the four collection commands hold, applied to what the call of
  the collector returned: \<open>Inl err\<close> when \<open>err != nil\<close>, \<open>Inr info\<close> otherwise. The
  closure returns the error itself as the message (\<open>return err\<close>).\<close>

definition collectCPUDataMsg :: "SystemError + CPUInfo \<Rightarrow> Msg" where
  "collectCPUDataMsg r = (case r of Inl err \<Rightarrow> SystemErrorMsg err | Inr cpuInfo \<Rightarrow> CPUUpdateMsg cpuInfo)"

definition collectMemoryDataMsg :: "SystemError + MemoryInfo \<Rightarrow> Msg" where
  "collectMemoryDataMsg r =
     (case r of Inl err \<Rightarrow> SystemErrorMsg err | Inr memoryInfo \<Rightarrow> MemoryUpdateMsg memoryInfo)"

definition collectDiskDataMsg :: "SystemError + DiskInfo list \<Rightarrow> Msg" where
  "collectDiskDataMsg r =
     (case r of Inl err \<Rightarrow> SystemErrorMsg err | Inr diskInfo \<Rightarrow> DiskUpdateMsg diskInfo)"

definition collectNetworkDataMsg :: "SystemError + NetworkInfo list \<Rightarrow> Msg" where
  "collectNetworkDataMsg r =
     (case r of Inl err \<Rightarrow> SystemErrorMsg err | Inr networkInfo \<Rightarrow> NetworkUpdateMsg networkInfo)"

text \<open>The event loop of the toolkit hands the messages to \<open>Update\<close> one at a time, each
  at its own instant; a panic ends the run.\<close>

fun MainModel_run :: "MainModel \<Rightarrow> (Time \<times> Msg) list \<Rightarrow> panic + MainModel" where
  "MainModel_run m [] = Inr m"
| "MainModel_run m ((now, msg) # rest) =
     (case MainModel_Update m now msg of
        Inl p \<Rightarrow> Inl p
      | Inr (m', cmd) \<Rightarrow> MainModel_run m' rest)"

section \<open>Rendering (\<open>StyleManager\<close> and the \<open>View\<close> methods)\<close>

text \<open>
  The terminal toolkit (lipgloss) and the formatting functions of the standard library are
  not part of the repository. They are the fields of a \<open>Toolkit\<close>, about which nothing is
  assumed: \<open>Render props text\<close> is \<open>lipgloss.NewStyle()\<close> with the properties \<open>props\<close>
  set, applied to \<open>text\<close>; \<open>Sprintf\<close> is \<open>fmt.Sprintf\<close> with its arguments in a list.
\<close>

type_synonym Position = real

definition lipgloss_Top :: Position where "lipgloss_Top = 0"
definition lipgloss_Left :: Position where "lipgloss_Left = 0"
definition lipgloss_Center :: Position where "lipgloss_Center = 1 / 2"
definition lipgloss_Right :: Position where "lipgloss_Right = 1"

datatype StyleProp =
    Bold bool
  | Foreground string
  | RoundedBorder
  | BorderForeground string
  | Width int
  | Height int
  | Padding "int list"
  | Margin "int list"
  | Align Position

datatype Arg = ArgS string | ArgF float64 | ArgI int | ArgU uint64

record Toolkit =
  Render :: "StyleProp list \<Rightarrow> string \<Rightarrow> string"
  JoinVertical :: "Position \<Rightarrow> string list \<Rightarrow> string"
  JoinHorizontal :: "Position \<Rightarrow> string list \<Rightarrow> string"
  PlaceHorizontal :: "int \<Rightarrow> Position \<Rightarrow> string \<Rightarrow> string"
  Sprintf :: "string \<Rightarrow> Arg list \<Rightarrow> string"
  TrimSpace :: "string \<Rightarrow> string"

text \<open>Strings are byte strings. The characters outside ASCII that the source uses, in
  UTF-8: the full block and the light shade of the progress bar, the bullet of the footer
  and the four arrows.\<close>

definition newline :: string where "newline = [CHR 0x0A]"
definition fullBlock :: string where "fullBlock = [CHR 0xE2, CHR 0x96, CHR 0x88]"
definition lightShade :: string where "lightShade = [CHR 0xE2, CHR 0x96, CHR 0x91]"
definition bullet :: string where "bullet = [CHR 0xE2, CHR 0x80, CHR 0xA2]"
definition upArrow :: string where "upArrow = [CHR 0xE2, CHR 0x86, CHR 0x91]"
definition downArrow :: string where "downArrow = [CHR 0xE2, CHR 0x86, CHR 0x93]"
definition leftArrow :: string where "leftArrow = [CHR 0xE2, CHR 0x86, CHR 0x90]"
definition rightArrow :: string where "rightArrow = [CHR 0xE2, CHR 0x86, CHR 0x92]"

text \<open>\<open>strings.Join\<close> and \<open>strings.Repeat\<close>; the latter panics on a negative count and
  when the length of the result overflows an \<open>int\<close>.\<close>

fun Join :: "string list \<Rightarrow> string \<Rightarrow> string" where
  "Join [] sep = []"
| "Join [x] sep = x"
| "Join (x # y # ys) sep = x @ sep @ Join (y # ys) sep"

definition Repeat :: "string \<Rightarrow> int \<Rightarrow> panic + string" where
  "Repeat str count =
     (if count < 0 then Inl NegativeRepeatCount
      else if int (length str) * count > 2 ^ 63 - 1 then Inl RepeatOverflow
      else Inr (concat (replicate (nat count) str)))"

text \<open>The conversion \<open>int(x)\<close> of a \<open>float64\<close> discards the fraction. Its result for a
  value outside the range of \<open>int\<close> depends on the platform; the value modelled is that
  of amd64.\<close>

definition float_to_int :: "float64 \<Rightarrow> int" where
  "float_to_int x =
     (let t = (if x \<ge> 0 then \<lfloor>x\<rfloor> else \<lceil>x\<rceil>)
      in if - (2 ^ 63) \<le> t \<and> t < 2 ^ 63 then t else - (2 ^ 63))"

text \<open>The loop \<open>for len(sections) < m.height { sections = append(sections, "") }\<close>.\<close>

definition padSections :: "string list \<Rightarrow> int \<Rightarrow> string list" where
  "padSections sections h = sections @ replicate (nat (h - int (length sections))) []"

definition GetUsageColor :: "StyleManager \<Rightarrow> float64 \<Rightarrow> string" where
  "GetUsageColor s percentage =
     (if percentage \<ge> 90 then Critical (colors s)
      else if percentage \<ge> 70 then Warning (colors s)
      else Normal (colors s))"

definition RenderProgressBar ::
  "Toolkit \<Rightarrow> StyleManager \<Rightarrow> float64 \<Rightarrow> int \<Rightarrow> bool \<Rightarrow> panic + string" where
  "RenderProgressBar tk s percentage w showPercentage =
     (let w = (if w \<le> 0 then 20 else w);
          filled = float_to_int (fmul (fdiv percentage 100) (float64_of_int w));
          filled = (if filled > w then w else filled)
      in case Repeat fullBlock filled of
           Inl p \<Rightarrow> Inl p
         | Inr full \<Rightarrow>
             (case Repeat lightShade (wrap64 (w - filled)) of
                Inl p \<Rightarrow> Inl p
              | Inr light \<Rightarrow>
                  (let bar = full @ light;
                       color = GetUsageColor s percentage;
                       styledBar = Render tk [Foreground color] bar
                   in if showPercentage
                      then (let percentText =
                                  Render tk [Foreground (Text (colors s))]
                                    (PlaceHorizontal tk 6 lipgloss_Right
                                       (Sprintf tk ''%.1f%%'' [ArgF percentage]))
                            in Inr (styledBar @ '' '' @ percentText))
                      else Inr styledBar)))"

definition RenderHeader :: "Toolkit \<Rightarrow> StyleManager \<Rightarrow> string \<Rightarrow> string" where
  "RenderHeader tk s title = Render tk [Bold True, Foreground (Header (colors s))] title"

definition RenderComponentBorder ::
  "Toolkit \<Rightarrow> StyleManager \<Rightarrow> string \<Rightarrow> bool \<Rightarrow> int \<Rightarrow> int \<Rightarrow> string" where
  "RenderComponentBorder tk s content isFocused w h =
     (let borderColor = (if isFocused then Focused (colors s) else Unfocused (colors s))
      in Render tk [RoundedBorder, BorderForeground borderColor, Width w, Height h,
                    Padding [0, 1]] content)"

definition RenderPlaceholder :: "Toolkit \<Rightarrow> StyleManager \<Rightarrow> string \<Rightarrow> string \<Rightarrow> string" where
  "RenderPlaceholder tk s title message =
     (let header = RenderHeader tk s title;
          placeholder = Render tk [Foreground (Muted (colors s))] message
      in header @ newline @ placeholder)"

definition RenderMutedText :: "Toolkit \<Rightarrow> StyleManager \<Rightarrow> string \<Rightarrow> string" where
  "RenderMutedText tk s text = Render tk [Foreground (Muted (colors s))] text"

definition RenderWarningText :: "Toolkit \<Rightarrow> StyleManager \<Rightarrow> string \<Rightarrow> string" where
  "RenderWarningText tk s text = Render tk [Foreground (Warning (colors s)), Bold True] text"

definition RenderCriticalText :: "Toolkit \<Rightarrow> StyleManager \<Rightarrow> string \<Rightarrow> string" where
  "RenderCriticalText tk s text = Render tk [Foreground (Critical (colors s)), Bold True] text"

definition RenderErrorText :: "Toolkit \<Rightarrow> StyleManager \<Rightarrow> string \<Rightarrow> string" where
  "RenderErrorText tk s text = Render tk [Foreground (Critical (colors s)), Bold True] text"

definition render2x2Layout :: "Toolkit \<Rightarrow> StyleManager \<Rightarrow> string list \<Rightarrow> string" where
  "render2x2Layout tk s components =
     (let components = components @ replicate (4 - length components) [];
          topRow = JoinHorizontal tk lipgloss_Top [components ! 0, '' '', components ! 1];
          bottomRow = JoinHorizontal tk lipgloss_Top [components ! 2, '' '', components ! 3]
      in JoinVertical tk lipgloss_Left [topRow, [], bottomRow])"

definition renderVerticalLayout :: "Toolkit \<Rightarrow> StyleManager \<Rightarrow> string list \<Rightarrow> string" where
  "renderVerticalLayout tk s components =
     (let nonEmptyComponents = filter (\<lambda>component. TrimSpace tk component \<noteq> []) components
      in JoinVertical tk lipgloss_Left nonEmptyComponents)"

definition RenderResponsiveLayout :: "Toolkit \<Rightarrow> StyleManager \<Rightarrow> string list \<Rightarrow> string" where
  "RenderResponsiveLayout tk s components =
     (if IsSmallTerminal s then renderVerticalLayout tk s components
      else render2x2Layout tk s components)"

definition RenderApplicationHeader :: "Toolkit \<Rightarrow> StyleManager \<Rightarrow> string \<Rightarrow> string" where
  "RenderApplicationHeader tk s title =
     Render tk [Bold True, Foreground (Header (colors s)), Align lipgloss_Center,
                Width (StyleManager.width s)] title"

definition RenderApplicationFooter :: "Toolkit \<Rightarrow> StyleManager \<Rightarrow> string list \<Rightarrow> string" where
  "RenderApplicationFooter tk s shortcuts =
     (let footerText = Join shortcuts ('' '' @ bullet @ '' '')
      in Render tk [Foreground (Muted (colors s)), Align lipgloss_Center,
                    Width (StyleManager.width s)] footerText)"

definition RenderHelpScreen :: "Toolkit \<Rightarrow> StyleManager \<Rightarrow> string \<Rightarrow> string" where
  "RenderHelpScreen tk s content =
     Render tk [RoundedBorder, BorderForeground (Header (colors s)), Padding [2], Margin [2],
                Width (wrap64 (StyleManager.width s - 8)),
                Height (wrap64 (StyleManager.height s - 8))] content"

text \<open>\<open>formatBytes\<close>: the memory, disk and network models each declare this method with
  the same body.\<close>

definition formatBytes :: "Toolkit \<Rightarrow> uint64 \<Rightarrow> string" where
  "formatBytes tk bytes =
     (if bytes \<ge> 1099511627776 then Sprintf tk ''%.1fTB'' [ArgF (fdiv (float64_of_uint64 bytes) 1099511627776)]
      else if bytes \<ge> 1073741824 then Sprintf tk ''%.1fGB'' [ArgF (fdiv (float64_of_uint64 bytes) 1073741824)]
      else if bytes \<ge> 1048576 then Sprintf tk ''%.1fMB'' [ArgF (fdiv (float64_of_uint64 bytes) 1048576)]
      else if bytes \<ge> 1024 then Sprintf tk ''%.1fKB'' [ArgF (fdiv (float64_of_uint64 bytes) 1024)]
      else Sprintf tk ''%dB'' [ArgU bytes])"

subsection \<open>\<open>CPUModel.View\<close>\<close>

text \<open>The loop over the cores; \<open>i\<close> is the index of the first core of the list.\<close>

fun coreLines ::
  "Toolkit \<Rightarrow> StyleManager \<Rightarrow> int \<Rightarrow> string list \<Rightarrow> int \<Rightarrow> float64 list \<Rightarrow> panic + string list" where
  "coreLines tk s w sections i [] = Inr sections"
| "coreLines tk s w sections i (u # us) =
     (let barWidth = GetProgressBarWidth s w 10
      in case RenderProgressBar tk s u barWidth False of
           Inl p \<Rightarrow> Inl p
         | Inr coreBar \<Rightarrow>
             (let coreLine = Sprintf tk ''Core %d: %s %.1f%%'' [ArgI (i + 1), ArgS coreBar, ArgF u]
              in coreLines tk s w (sections @ [coreLine]) (i + 1) us))"

definition CPUModel_View :: "Toolkit \<Rightarrow> CPUModel \<Rightarrow> panic + string" where
  "CPUModel_View tk m =
     (let s = CPUModel.styleManager m;
          sections = [RenderHeader tk s ''CPU Usage'']
      in if CPUModel.hasError m
         then (let sections = sections @ [RenderErrorText tk s (''Error: '' @ CPUModel.errorMessage m)];
                   sections = sections @ [RenderMutedText tk s ''CPU data unavailable''];
                   sections = sections @ [''Total: N/A''];
                   sections = sections @ [''Cores: N/A'']
               in Inr (Join (padSections sections (CPUModel.height m)) newline))
         else if cores m = 0
         then Inr (RenderPlaceholder tk s ''CPU Usage'' ''Loading CPU data...'')
         else (let barWidth = GetProgressBarWidth s (CPUModel.width m) 8
               in case RenderProgressBar tk s (CPUModel.total m) barWidth False of
                    Inl p \<Rightarrow> Inl p
                  | Inr totalBar \<Rightarrow>
                      (let totalLine = Sprintf tk ''Total: %s %.1f%%''
                                         [ArgS totalBar, ArgF (CPUModel.total m)];
                           sections = sections @ [totalLine]
                       in case coreLines tk s (CPUModel.width m) sections 0 (usage m) of
                            Inl p \<Rightarrow> Inl p
                          | Inr sections \<Rightarrow>
                              Inr (Join (padSections sections (CPUModel.height m)) newline))))"

subsection \<open>\<open>MemoryModel.View\<close>\<close>

definition MemoryModel_View :: "Toolkit \<Rightarrow> MemoryModel \<Rightarrow> panic + string" where
  "MemoryModel_View tk m =
     (let s = MemoryModel.styleManager m;
          sections = [RenderHeader tk s ''Memory Usage'']
      in if MemoryModel.hasError m
         then (let sections = sections @ [RenderErrorText tk s (''Error: '' @ MemoryModel.errorMessage m)];
                   sections = sections @ [RenderMutedText tk s ''Memory data unavailable''];
                   sections = sections @ [''RAM: N/A''];
                   sections = sections @ [''Swap: N/A'']
               in Inr (Join (padSections sections (MemoryModel.height m)) newline))
         else if MemoryModel.total m = 0
         then Inr (RenderPlaceholder tk s ''Memory Usage'' ''Loading memory data...'')
         else (let ramUsagePercent = fmul (fdiv (float64_of_uint64 (used m))
                                               (float64_of_uint64 (MemoryModel.total m))) 100;
                   barWidth = GetProgressBarWidth s (MemoryModel.width m) 6
               in case RenderProgressBar tk s ramUsagePercent barWidth False of
                    Inl p \<Rightarrow> Inl p
                  | Inr ramBar \<Rightarrow>
                      (let ramLine = Sprintf tk ''RAM: %s %.1f%%'' [ArgS ramBar, ArgF ramUsagePercent];
                           sections = sections @ [ramLine];
                           ramDetails = Sprintf tk ''     %s / %s''
                                          [ArgS (formatBytes tk (used m)),
                                           ArgS (formatBytes tk (MemoryModel.total m))];
                           sections = sections @ [RenderMutedText tk s ramDetails]
                       in if SwapInfo.Total (swap m) > 0
                          then (let swapUsagePercent =
                                      fmul (fdiv (float64_of_uint64 (SwapInfo.Used (swap m)))
                                                  (float64_of_uint64 (SwapInfo.Total (swap m)))) 100;
                                    barWidth = GetProgressBarWidth s (MemoryModel.width m) 7
                                in case RenderProgressBar tk s swapUsagePercent barWidth False of
                                     Inl p \<Rightarrow> Inl p
                                   | Inr swapBar \<Rightarrow>
                                       (let swapLine = Sprintf tk ''Swap: %s %.1f%%''
                                                         [ArgS swapBar, ArgF swapUsagePercent];
                                            sections = sections @ [swapLine];
                                            swapDetails = Sprintf tk ''      %s / %s''
                                                            [ArgS (formatBytes tk (SwapInfo.Used (swap m))),
                                                             ArgS (formatBytes tk (SwapInfo.Total (swap m)))];
                                            sections = sections @ [RenderMutedText tk s swapDetails]
                                        in Inr (Join (padSections sections (MemoryModel.height m))
                                                  newline)))
                          else (let sections = sections @ [RenderMutedText tk s ''Swap: Not configured'']
                                in Inr (Join (padSections sections (MemoryModel.height m))
                                          newline)))))"

subsection \<open>\<open>DiskModel.View\<close>\<close>

fun filesystemLines ::
  "Toolkit \<Rightarrow> StyleManager \<Rightarrow> int \<Rightarrow> string list \<Rightarrow> DiskInfo list \<Rightarrow> panic + string list" where
  "filesystemLines tk s w sections [] = Inr sections"
| "filesystemLines tk s w sections (fs # rest) =
     (let mountpoint = Mountpoint fs;
          mountpoint = (if length mountpoint > 15 then take 12 mountpoint @ ''...'' else mountpoint);
          barWidth = GetProgressBarWidth s w 18
      in case RenderProgressBar tk s (UsedPercent fs) barWidth False of
           Inl p \<Rightarrow> Inl p
         | Inr fsBar \<Rightarrow>
             (let fsLine = Sprintf tk ''%-15s %s %.1f%%''
                             [ArgS mountpoint, ArgS fsBar, ArgF (UsedPercent fs)];
                  sections =
                    (if UsedPercent fs \<ge> 90 then sections @ [RenderCriticalText tk s fsLine]
                     else if UsedPercent fs \<ge> 70 then sections @ [RenderWarningText tk s fsLine]
                     else sections @ [fsLine]);
                  sizeDetails = Sprintf tk ''%-15s %s / %s''
                                  [ArgS [], ArgS (formatBytes tk (DiskInfo.Used fs)),
                                   ArgS (formatBytes tk (DiskInfo.Total fs))];
                  sections = sections @ [RenderMutedText tk s sizeDetails]
              in filesystemLines tk s w sections rest))"

definition DiskModel_View :: "Toolkit \<Rightarrow> DiskModel \<Rightarrow> panic + string" where
  "DiskModel_View tk m =
     (let s = DiskModel.styleManager m;
          sections = [RenderHeader tk s ''Disk Usage'']
      in if DiskModel.hasError m
         then (let sections = sections @ [RenderErrorText tk s (''Error: '' @ DiskModel.errorMessage m)];
                   sections = sections @ [RenderMutedText tk s ''Disk data unavailable''];
                   sections = sections @ [''Filesystems: N/A''];
                   sections = sections @ [''Usage: N/A'']
               in Inr (Join (padSections sections (DiskModel.height m)) newline))
         else if length (filesystems m) = 0
         then Inr (RenderPlaceholder tk s ''Disk Usage'' ''Loading disk data...'')
         else (case filesystemLines tk s (DiskModel.width m) sections (filesystems m) of
                 Inl p \<Rightarrow> Inl p
               | Inr sections \<Rightarrow> Inr (Join (padSections sections (DiskModel.height m)) newline)))"

subsection \<open>\<open>NetworkModel.View\<close>\<close>

definition formatRate :: "Toolkit \<Rightarrow> float64 \<Rightarrow> string" where
  "formatRate tk bytesPerSec =
     (if bytesPerSec \<ge> 1073741824 then Sprintf tk ''%.1fGB/s'' [ArgF (fdiv bytesPerSec 1073741824)]
      else if bytesPerSec \<ge> 1048576 then Sprintf tk ''%.1fMB/s'' [ArgF (fdiv bytesPerSec 1048576)]
      else if bytesPerSec \<ge> 1024 then Sprintf tk ''%.1fKB/s'' [ArgF (fdiv bytesPerSec 1024)]
      else if bytesPerSec > 0 then Sprintf tk ''%.0fB/s'' [ArgF bytesPerSec]
      else ''0B/s'')"

definition styleByActivityWithManager ::
  "Toolkit \<Rightarrow> StyleManager \<Rightarrow> string \<Rightarrow> NetworkStats \<Rightarrow> string" where
  "styleByActivityWithManager tk s text stats =
     (let totalRate = fadd (SendRate stats) (RecvRate stats)
      in if totalRate \<ge> 10 * 1024 * 1024 then RenderCriticalText tk s text
         else if totalRate \<ge> 1 * 1024 * 1024 then RenderWarningText tk s text
         else if totalRate > 0 then Render tk [Foreground (GetUsageColor s 50)] text
         else RenderMutedText tk s text)"

fun interfaceLines ::
  "Toolkit \<Rightarrow> StyleManager \<Rightarrow> (string \<rightharpoonup> NetworkStats) \<Rightarrow> string list \<Rightarrow> NetworkInfo list \<Rightarrow> string list" where
  "interfaceLines tk s rs sections [] = sections"
| "interfaceLines tk s rs sections (iface # rest) =
     (let hasRates = (rs (Interface iface) \<noteq> None);
          stats = (case rs (Interface iface) of
                     None \<Rightarrow> \<lparr>SendRate = 0, RecvRate = 0\<rparr>
                   | Some st \<Rightarrow> st);
          interfaceName = Interface iface;
          interfaceName = (if length interfaceName > 12 then take 9 interfaceName @ ''...''
                           else interfaceName);
          rateLine =
            (if hasRates
             then Sprintf tk (''%-12s '' @ upArrow @ '' %8s '' @ downArrow @ '' %8s'')
                    [ArgS interfaceName, ArgS (formatRate tk (SendRate stats)),
                     ArgS (formatRate tk (RecvRate stats))]
             else Sprintf tk (''%-12s '' @ upArrow @ '' %8s '' @ downArrow @ '' %8s'')
                    [ArgS interfaceName, ArgS ''N/A'', ArgS ''N/A'']);
          styledLine = styleByActivityWithManager tk s rateLine stats;
          sections = sections @ [styledLine];
          totalLine = Sprintf tk ''%-12s   %8s   %8s''
                        [ArgS [], ArgS (formatBytes tk (BytesSent iface)),
                         ArgS (formatBytes tk (BytesRecv iface))];
          sections = sections @ [RenderMutedText tk s totalLine]
      in interfaceLines tk s rs sections rest)"

definition NetworkModel_View :: "Toolkit \<Rightarrow> NetworkModel \<Rightarrow> panic + string" where
  "NetworkModel_View tk m =
     (let s = NetworkModel.styleManager m;
          sections = [RenderHeader tk s ''Network Activity'']
      in if NetworkModel.hasError m
         then (let sections = sections @ [RenderErrorText tk s (''Error: '' @ NetworkModel.errorMessage m)];
                   sections = sections @ [RenderMutedText tk s ''Network data unavailable''];
                   sections = sections @ [''Interfaces: N/A''];
                   sections = sections @ [''Activity: N/A'']
               in Inr (Join (padSections sections (NetworkModel.height m)) newline))
         else if length (interfaces m) = 0
         then Inr (RenderPlaceholder tk s ''Network Activity'' ''Loading network data...'')
         else Inr (Join (padSections (interfaceLines tk s (rates m) sections (interfaces m))
                           (NetworkModel.height m)) newline))"

subsection \<open>\<open>MainModel.View\<close>\<close>

definition renderHelp :: "Toolkit \<Rightarrow> MainModel \<Rightarrow> string" where
  "renderHelp tk m =
     (let helpContent =
            [''System Monitor - Keyboard Shortcuts'',
             [],
             ''Navigation:'',
             ''  '' @ upArrow @ ''/'' @ downArrow @ ''/'' @ leftArrow @ ''/'' @ rightArrow
               @ '', hjkl  Navigate between components'',
             ''  Tab, Shift+Tab  Cycle through components'',
             [],
             ''Actions:'',
             ''  q, Ctrl+C       Quit application'',
             ''  r               Manual refresh'',
             ''  ?, h            Toggle this help'',
             [],
             ''Components:'',
             ''  CPU             Real-time CPU usage per core'',
             ''  Memory          RAM and swap usage'',
             ''  Disk            Filesystem usage and warnings'',
             ''  Network         Interface activity and rates'',
             [],
             ''Press any key to return to the main view''];
          content = Join helpContent newline
      in RenderHelpScreen tk (MainModel.styleManager m) content)"

definition MainModel_View :: "Toolkit \<Rightarrow> MainModel \<Rightarrow> panic + string" where
  "MainModel_View tk m =
     (if showHelp m then Inr (renderHelp tk m)
      else
        (case CalculateComponentDimensions (MainModel.styleManager m) of
           (componentWidth, componentHeight) \<Rightarrow>
             (let sm = MainModel.styleManager m;
                  m = m\<lparr>cpu := CPUModel_SetSize (cpu m) componentWidth componentHeight\<rparr>;
                  m = m\<lparr>memory := MemoryModel_SetSize (memory m) componentWidth componentHeight\<rparr>;
                  m = m\<lparr>disk := DiskModel_SetSize (disk m) componentWidth componentHeight\<rparr>;
                  m = m\<lparr>network := NetworkModel_SetSize (network m) componentWidth componentHeight\<rparr>
              in case CPUModel_View tk (cpu m) of
                   Inl p \<Rightarrow> Inl p
                 | Inr cpuContent \<Rightarrow>
              (case MemoryModel_View tk (memory m) of
                   Inl p \<Rightarrow> Inl p
                 | Inr memoryContent \<Rightarrow>
              (case DiskModel_View tk (disk m) of
                   Inl p \<Rightarrow> Inl p
                 | Inr diskContent \<Rightarrow>
              (case NetworkModel_View tk (network m) of
                   Inl p \<Rightarrow> Inl p
                 | Inr networkContent \<Rightarrow>
                (let cpuView = RenderComponentBorder tk sm cpuContent (focused m = FocusCPU)
                                 componentWidth componentHeight;
                     memoryView = RenderComponentBorder tk sm memoryContent (focused m = FocusMemory)
                                    componentWidth componentHeight;
                     diskView = RenderComponentBorder tk sm diskContent (focused m = FocusDisk)
                                  componentWidth componentHeight;
                     networkView = RenderComponentBorder tk sm networkContent (focused m = FocusNetwork)
                                     componentWidth componentHeight;
                     components = [cpuView, memoryView, diskView, networkView];
                     content = RenderResponsiveLayout tk sm components;
                     header = RenderApplicationHeader tk sm ''System Monitor'';
                     shortcuts = [''q: quit'', ''arrows/tab: navigate'', ''r: refresh'', ''?: help''];
                     footer = RenderApplicationFooter tk sm shortcuts
                 in Inr (JoinVertical tk lipgloss_Left [header, [], content, [], footer]))))))))"

text \<open>What the toolkit runs for a command: \<open>tea.Batch\<close> runs every command it was given
  that is not nil; any other command is run as it is.\<close>

fun commandsOf :: "Cmd \<Rightarrow> Cmd list" where
  "commandsOf CmdNil = []"
| "commandsOf (Batch cs) = concat (map commandsOf cs)"
| "commandsOf c = [c]"

text \<open>A run of the CPU component alone over successful samples.\<close>

fun CPUModel_run :: "CPUModel \<Rightarrow> CPUInfo list \<Rightarrow> panic + CPUModel" where
  "CPUModel_run m [] = Inr m"
| "CPUModel_run m (info # rest) =
     (case CPUModel_Update m (CPUUpdateMsg info) of
        Inl p \<Rightarrow> Inl p
      | Inr (m', cmd) \<Rightarrow> CPUModel_run m' rest)"

text \<open>A toolkit for evaluating views on examples: styles leave the text as it is, joins
  concatenate, and \<open>Sprintf\<close> returns its format string.\<close>

definition plainToolkit :: Toolkit where
  "plainToolkit =
     \<lparr>Render = (\<lambda>props text. text),
      JoinVertical = (\<lambda>pos strs. Join strs newline),
      JoinHorizontal = (\<lambda>pos strs. concat strs),
      PlaceHorizontal = (\<lambda>w pos text. text),
      Sprintf = (\<lambda>format args. format),
      TrimSpace = (\<lambda>text. text)\<rparr>"

text \<open>The initial model after a resize of the terminal to 40 columns and 12 rows.\<close>

definition smallViewportModel :: MainModel where
  "smallViewportModel =
     updateComponentSizes
       ((NewMainModel 0 0)\<lparr>MainModel.width := 40, MainModel.height := 12,
          MainModel.styleManager := SetDimensions NewStyleManager 40 12\<rparr>)"

section \<open>Verified properties\<close>

subsection \<open>Focus navigation\<close>

text \<open>
  Claim C5. The forward focus cycle \<open>nextFocus\<close> is the 4-cycle
  CPU, Memory, Disk, Network, CPU: four steps from any focus return to it, the first five
  foci visited from CPU are CPU, Memory, Disk, Network, CPU, and \<open>prevFocus\<close> is its
  inverse on both sides.
\<close>

theorem focus_cycle_forward_backward:
  "nextFocus (m\<lparr>focused := FocusCPU\<rparr>) = FocusMemory
   \<and> nextFocus (m\<lparr>focused := FocusMemory\<rparr>) = FocusDisk
   \<and> nextFocus (m\<lparr>focused := FocusDisk\<rparr>) = FocusNetwork
   \<and> nextFocus (m\<lparr>focused := FocusNetwork\<rparr>) = FocusCPU
   \<and> ((\<lambda>g. nextFocus (m\<lparr>focused := g\<rparr>)) ^^ 4) f = f
   \<and> map (\<lambda>n. ((\<lambda>g. nextFocus (m\<lparr>focused := g\<rparr>)) ^^ n) FocusCPU) [0, 1, 2, 3, 4]
       = [FocusCPU, FocusMemory, FocusDisk, FocusNetwork, FocusCPU]
   \<and> prevFocus (m\<lparr>focused := nextFocus (m\<lparr>focused := f\<rparr>)\<rparr>) = f
   \<and> nextFocus (m\<lparr>focused := prevFocus (m\<lparr>focused := f\<rparr>)\<rparr>) = f"
  by (cases f) (simp_all add: nextFocus_def prevFocus_def eval_nat_numeral)

text \<open>
  Claim C6. The vertical moves clamp: \<open>downFocus\<close> maps CPU to Disk and Memory to
  Network and leaves Disk and Network where they are; \<open>upFocus\<close> maps Disk to CPU and
  Network to Memory and leaves CPU and Memory where they are. The four foci are all the
  values of the type, so this is the whole transition table.
\<close>

theorem vertical_focus_clamps:
  "downFocus (m\<lparr>focused := FocusCPU\<rparr>) = FocusDisk
   \<and> downFocus (m\<lparr>focused := FocusMemory\<rparr>) = FocusNetwork
   \<and> downFocus (m\<lparr>focused := FocusDisk\<rparr>) = FocusDisk
   \<and> downFocus (m\<lparr>focused := FocusNetwork\<rparr>) = FocusNetwork
   \<and> upFocus (m\<lparr>focused := FocusDisk\<rparr>) = FocusCPU
   \<and> upFocus (m\<lparr>focused := FocusNetwork\<rparr>) = FocusMemory
   \<and> upFocus (m\<lparr>focused := FocusCPU\<rparr>) = FocusCPU
   \<and> upFocus (m\<lparr>focused := FocusMemory\<rparr>) = FocusMemory"
  by (simp add: downFocus_def upFocus_def)

text \<open>With the default key map the navigation keys apply these functions to the focus.\<close>

lemma default_keys_navigation:
  assumes "keys m = DefaultKeyMap"
  shows "MainModel_Update m now (KeyMsg ''tab'') = Inr (m\<lparr>focused := nextFocus m\<rparr>, Batch [])"
    and "MainModel_Update m now (KeyMsg ''right'') = Inr (m\<lparr>focused := nextFocus m\<rparr>, Batch [])"
    and "MainModel_Update m now (KeyMsg ''shift+tab'') = Inr (m\<lparr>focused := prevFocus m\<rparr>, Batch [])"
    and "MainModel_Update m now (KeyMsg ''left'') = Inr (m\<lparr>focused := prevFocus m\<rparr>, Batch [])"
    and "MainModel_Update m now (KeyMsg ''down'') = Inr (m\<lparr>focused := downFocus m\<rparr>, Batch [])"
    and "MainModel_Update m now (KeyMsg ''up'') = Inr (m\<lparr>focused := upFocus m\<rparr>, Batch [])"
  using assms by (simp_all add: MainModel_Update_def DefaultKeyMap_def)

subsection \<open>Rounding to \<open>float64\<close>\<close>

text \<open>The rounding function is the one of binary64: the binary exponent brackets the
  argument (\<open>binexp_bounds\<close>), the significand that is rounded has 53 binary digits
  (\<open>float64_round_mantissa\<close>), the result is within half a unit in the last place of the
  argument (\<open>float64_round_error\<close>, \<open>float64_round_relative_error\<close>), has its sign
  (\<open>float64_round_sgn\<close>), and no multiple of the unit in the last place is nearer to the
  argument (\<open>float64_round_nearest\<close>); a tie goes to the even significand
  (\<open>roundEven_tie\<close>).\<close>

lemma bitlen_bounds:
  "0 < n \<Longrightarrow> 2 ^ (bitlen n - 1) \<le> n \<and> n < 2 ^ bitlen n"
proof (induction n rule: bitlen.induct)
  case (1 n)
  show ?case
  proof (cases "n div 2 = 0")
    case True
    with "1.prems" have "n = 1" by (simp add: div_eq_0_iff) 
    then show ?thesis by (simp add: bitlen.simps)
  next
    case False
    define k where "k = (2::nat) ^ (bitlen (n div 2) - 1)"
    from False "1.IH" "1.prems" have ih: "k \<le> n div 2" "n div 2 < 2 ^ bitlen (n div 2)"
      by (simp_all add: k_def)
    have pos: "0 < bitlen (n div 2)" using False by (simp add: bitlen.simps [of "n div 2"])
    have eq: "bitlen n = Suc (bitlen (n div 2))" using "1.prems" by (simp add: bitlen.simps [of n])
    from pos have p: "(2::nat) ^ bitlen (n div 2) = 2 * k"
      unfolding k_def by (cases "bitlen (n div 2)") simp_all
    from ih have "2 * k \<le> n" "n < 4 * k" unfolding p by presburger+
    then show ?thesis unfolding eq by (simp add: p k_def [symmetric])
  qed
qed

lemma roundEven_near: "\<bar>of_int (roundEven y) - y\<bar> \<le> 1 / 2"
  by (simp add: roundEven_def Let_def)


lemma bitlen_real_bounds:
  assumes "0 < n"
  shows "(2::real) ^ (bitlen n - 1) \<le> real n" and "real n + 1 \<le> 2 * 2 ^ (bitlen n - 1)"
    and "bitlen n = Suc (bitlen n - 1)"
proof -
  from bitlen_bounds [OF assms] have b: "2 ^ (bitlen n - 1) \<le> n" "n < 2 ^ bitlen n" by simp_all
  show s: "bitlen n = Suc (bitlen n - 1)" using assms by (simp add: bitlen.simps [of n])
  from b(1) have "real (2 ^ (bitlen n - 1)) \<le> real n" by (rule of_nat_mono)
  then show "(2::real) ^ (bitlen n - 1) \<le> real n" by simp
  from b(2) have "n + 1 \<le> 2 * 2 ^ (bitlen n - 1)" by (subst (asm) s) simp
  then have "real (n + 1) \<le> real (2 * 2 ^ (bitlen n - 1))" by (rule of_nat_mono)
  then show "real n + 1 \<le> 2 * 2 ^ (bitlen n - 1)" by simp
qed

lemma binexp_bounds:
  assumes "0 < y"
  shows "scale2 1 (binexp y) \<le> y \<and> y < 2 * scale2 1 (binexp y)"
proof (cases "1 \<le> y")
  case True
  define n where "n = nat \<lfloor>y\<rfloor>"
  have n0: "0 < n" using True by (simp add: n_def)
  have n1: "real n \<le> y" using True by (simp add: n_def)
  have n2: "y < real n + 1" using True by (simp add: n_def)
  note b = bitlen_real_bounds [OF n0]
  define k where "k = (2::real) ^ (bitlen n - 1)"
  have e: "binexp y = int (bitlen n - 1)" using True b(3) by (simp add: binexp_def n_def)
  have s: "scale2 1 (binexp y) = k" by (simp add: e scale2_def k_def)
  have "k \<le> real n" "real n + 1 \<le> 2 * k" using b(1,2) unfolding k_def by blast+
  with n1 n2 show ?thesis unfolding s by linarith
next
  case False
  define z where "z = 1 / y"
  have z: "1 < z" using False assms by (simp add: z_def)
  define n where "n = nat (\<lceil>z\<rceil> - 1)"
  have n0: "0 < n" using z by (simp add: n_def; linarith)
  have n1: "real n < z" using z by (simp add: n_def; linarith)
  have n2: "z \<le> real n + 1" using z by (simp add: n_def; linarith)
  note b = bitlen_real_bounds [OF n0]
  define k where "k = (2::real) ^ (bitlen n - 1)"
  have k: "0 < k" by (simp add: k_def)
  have e: "binexp y = - int (bitlen n)" using False by (simp add: binexp_def n_def z_def)
  have "(2::real) ^ bitlen n = 2 ^ Suc (bitlen n - 1)" using b(3) by simp
  then have p: "(2::real) ^ bitlen n = 2 * k" by (simp add: k_def)
  have bl: "0 < bitlen n" using b(3) by simp
  have s: "scale2 1 (binexp y) = 1 / (2 * k)"
    unfolding e using bl by (simp add: scale2_def p)
  have y: "y = 1 / z" using assms by (simp add: z_def)
  have "k \<le> real n" "real n + 1 \<le> 2 * k" using b(1,2) unfolding k_def by blast+
  with n1 n2 have zk: "k < z" "z \<le> 2 * k" by linarith+
  have zpos: "0 < z" using z by simp
  have "1 / (2 * k) \<le> 1 / z" using zk(2) zpos by (intro divide_left_mono) simp_all
  moreover have "1 / z < 1 / k" using zk(1) k by (intro divide_strict_left_mono) simp_all
  moreover have "2 * (1 / (2 * k)) = 1 / k" using k by simp
  ultimately have "1 / (2 * k) \<le> y \<and> y < 2 * (1 / (2 * k))" unfolding y by simp
  then show ?thesis unfolding s .
qed


lemma scale2_mult: "scale2 x e = x * scale2 1 e"
  by (simp add: scale2_def)

lemma scale2_pos: "0 < scale2 1 e"
  by (simp add: scale2_def)

lemma scale2_inverse: "scale2 1 (- e) * scale2 1 e = 1"
  by (cases "0 \<le> e") (auto simp add: scale2_def)

lemma float64_round_error:
  "\<bar>float64_round x - x\<bar> \<le> scale2 1 (binexp \<bar>x\<bar> - 52) / 2"
proof (cases "x = 0")
  case True
  then show ?thesis using scale2_pos [of "binexp \<bar>x\<bar> - 52"] by (simp add: float64_round_def)
next
  case False
  define e where "e = binexp \<bar>x\<bar> - 52"
  define u where "u = scale2 1 e"
  define y where "y = scale2 \<bar>x\<bar> (- e)"
  have u: "0 < u" by (simp add: u_def scale2_pos)
  have yu: "y * u = \<bar>x\<bar>"
    using scale2_inverse [of e] by (simp add: y_def u_def scale2_mult [of "\<bar>x\<bar>"])
  have r: "float64_round x = sgn x * (of_int (roundEven y) * u)"
    using False by (simp add: float64_round_def Let_def e_def [symmetric] y_def [symmetric]
        u_def scale2_mult [of "of_int (roundEven y)"])
  have x: "sgn x * (y * u) = x" by (simp add: yu sgn_mult_abs)
  have "float64_round x - x = sgn x * (of_int (roundEven y) * u) - sgn x * (y * u)"
    unfolding r x ..
  also have "\<dots> = sgn x * ((of_int (roundEven y) - y) * u)"
    by (simp add: algebra_simps)
  finally have "\<bar>float64_round x - x\<bar> = \<bar>of_int (roundEven y) - y\<bar> * u"
    using False u by (simp add: abs_mult abs_sgn_eq)
  also have "\<dots> \<le> (1 / 2) * u"
    using roundEven_near [of y] u by (intro mult_right_mono) simp_all
  finally show ?thesis by (simp add: u_def e_def)
qed


lemma scale2_powi: "scale2 x e = x * 2 powi e"
  by (cases "0 \<le> e") (simp_all add: scale2_def power_int_def field_simps)

lemma roundEven_ge_floor: "\<lfloor>y\<rfloor> \<le> roundEven y"
  by (simp add: roundEven_def Let_def)

lemma float64_round_mantissa:
  assumes "x \<noteq> 0"
  shows "2 ^ 52 \<le> roundEven (scale2 \<bar>x\<bar> (- (binexp \<bar>x\<bar> - 52)))"
proof -
  define b where "b = binexp \<bar>x\<bar>"
  have "2 powi b \<le> \<bar>x\<bar>" using binexp_bounds [of "\<bar>x\<bar>"] assms by (simp add: scale2_powi b_def)
  then have "2 powi b * 2 powi (52 - b) \<le> \<bar>x\<bar> * 2 powi (52 - b)"
    by (intro mult_right_mono) simp_all
  moreover have "(2::real) powi b * 2 powi (52 - b) = 2 powi 52"
    by (simp add: power_int_add [symmetric])
  ultimately have "(2::real) ^ 52 \<le> scale2 \<bar>x\<bar> (- (b - 52))"
    by (simp add: scale2_powi)
  then have "(2::int) ^ 52 \<le> \<lfloor>scale2 \<bar>x\<bar> (- (b - 52))\<rfloor>" by (simp add: le_floor_iff)
  also have "\<dots> \<le> roundEven (scale2 \<bar>x\<bar> (- (b - 52)))" by (rule roundEven_ge_floor)
  finally show ?thesis unfolding b_def .
qed

lemma float64_round_sgn: "sgn (float64_round x) = sgn x"
proof (cases "x = 0")
  case True
  then show ?thesis by (simp add: float64_round_def)
next
  case False
  define m where "m = roundEven (scale2 \<bar>x\<bar> (- (binexp \<bar>x\<bar> - 52)))"
  have "0 < m" using float64_round_mantissa [OF False] by (simp add: m_def)
  then have "0 < scale2 (of_int m) (binexp \<bar>x\<bar> - 52)" by (simp add: scale2_powi)
  moreover have "float64_round x = sgn x * scale2 (of_int m) (binexp \<bar>x\<bar> - 52)"
    using False by (simp add: float64_round_def Let_def m_def)
  ultimately show ?thesis by (simp add: sgn_mult)
qed

lemma float64_round_pos_iff: "0 < float64_round x \<longleftrightarrow> 0 < x"
  using float64_round_sgn [of x] by (simp add: sgn_real_def split: if_splits)

lemma float64_round_nonneg_iff: "0 \<le> float64_round x \<longleftrightarrow> 0 \<le> x"
  using float64_round_sgn [of x] by (simp add: sgn_real_def split: if_splits)

lemma float64_round_relative_error:
  "\<bar>float64_round x - x\<bar> \<le> \<bar>x\<bar> / 2 ^ 53"
proof (cases "x = 0")
  case True
  then show ?thesis by (simp add: float64_round_def)
next
  case False
  define b where "b = binexp \<bar>x\<bar>"
  define p where "p = (2::real) powi b"
  have p: "p \<le> \<bar>x\<bar>" using binexp_bounds [of "\<bar>x\<bar>"] False by (simp add: scale2_powi b_def p_def)
  have "(2::real) powi (b - 52) = p * 2 powi (- 52)"
    unfolding p_def using power_int_add [of "2::real" b "- 52"] by simp
  also have "\<dots> = p / 2 ^ 52" by (simp add: power_int_minus)
  finally have "scale2 1 (b - 52) / 2 = p / 2 ^ 53" by (simp add: scale2_powi)
  moreover have "p / 2 ^ 53 \<le> \<bar>x\<bar> / 2 ^ 53" using p by (rule divide_right_mono) simp
  ultimately have "scale2 1 (b - 52) / 2 \<le> \<bar>x\<bar> / 2 ^ 53" by (simp only:)
  with float64_round_error [of x] show ?thesis unfolding b_def by (rule order_trans)
qed

lemma roundEven_nearest: "\<bar>of_int (roundEven y) - y\<bar> \<le> \<bar>of_int k - y\<bar>"
proof -
  define f where "f = \<lfloor>y\<rfloor>"
  define d where "d = y - of_int f"
  have d: "0 \<le> d" "d < 1" by (simp_all add: d_def f_def) linarith
  have y: "y = of_int f + d" by (simp add: d_def)
  have r: "roundEven y = f \<or> roundEven y = f + 1"
    "d < 1 / 2 \<Longrightarrow> roundEven y = f" "1 / 2 < d \<Longrightarrow> roundEven y = f + 1"
    by (simp_all add: roundEven_def Let_def f_def d_def)
  consider "k \<le> f" | "f + 1 \<le> k" by linarith
  then show ?thesis
  proof cases
    case 1
    then have "real_of_int k \<le> of_int f" by simp
    then have k: "\<bar>of_int k - y\<bar> \<ge> d" unfolding y using d by linarith
    show ?thesis
    proof (cases "d \<le> 1 / 2")
      case True
      with r d k show ?thesis unfolding y by (cases "d < 1 / 2") auto
    next
      case False
      with r(3) have "roundEven y = f + 1" by simp
      with False d k show ?thesis unfolding y by simp
    qed
  next
    case 2
    then have "real_of_int (f + 1) \<le> of_int k" by (simp only: of_int_le_iff)
    then have k: "\<bar>of_int k - y\<bar> \<ge> 1 - d" unfolding y using d by simp
    show ?thesis
    proof (cases "d < 1 / 2")
      case True
      with r(2) have "roundEven y = f" by simp
      with True d k show ?thesis unfolding y by simp
    next
      case False
      with r d k show ?thesis unfolding y by (cases "1 / 2 < d") auto
    qed
  qed
qed

lemma roundEven_tie: "y - of_int \<lfloor>y\<rfloor> = 1 / 2 \<Longrightarrow> even (roundEven y)"
  by (simp add: roundEven_def Let_def)


lemma float64_round_nearest:
  assumes "0 < x"
  shows "\<bar>float64_round x - x\<bar> \<le> \<bar>scale2 (of_int k) (binexp x - 52) - x\<bar>"
proof -
  define e where "e = binexp x - 52"
  define u where "u = scale2 1 e"
  define y where "y = scale2 x (- e)"
  have u: "0 < u" by (simp add: u_def scale2_pos)
  have yu: "y * u = x"
    using scale2_inverse [of e] by (simp add: y_def u_def scale2_mult [of x])
  have r: "float64_round x = of_int (roundEven y) * u"
    using assms by (simp add: float64_round_def Let_def e_def [symmetric] y_def [symmetric]
        u_def scale2_mult [of "of_int (roundEven y)"])
  have "float64_round x - x = of_int (roundEven y) * u - y * u" unfolding r yu ..
  also have "\<dots> = (of_int (roundEven y) - y) * u" by (simp add: algebra_simps)
  finally have a: "\<bar>float64_round x - x\<bar> = \<bar>of_int (roundEven y) - y\<bar> * u"
    using u by (simp add: abs_mult)
  have "scale2 (of_int k) e - x = of_int k * u - y * u"
    unfolding yu by (simp add: u_def scale2_mult [of "of_int k"])
  also have "\<dots> = (of_int k - y) * u" by (simp add: algebra_simps)
  finally have b: "\<bar>scale2 (of_int k) e - x\<bar> = \<bar>of_int k - y\<bar> * u"
    using u by (simp add: abs_mult)
  have "\<bar>of_int (roundEven y) - y\<bar> * u \<le> \<bar>of_int k - y\<bar> * u"
    using roundEven_nearest [of y k] u by (intro mult_right_mono) simp_all
  then show ?thesis unfolding a b e_def [symmetric] .
qed

text \<open>The definitions that evaluate the rounding of a number given by a numeral.\<close>

lemmas f64_eval = float64_round_def binexp_def roundEven_def scale2_def Let_def bitlen.simps

lemma float64_round_examples:
  "float64_round 1024 = 1024"
  "float64_round (1 / 2) = 1 / 2"
  "float64_round (1 / 10) = 3602879701896397 / 36028797018963968"
  "float64_round (1 / 3) = 6004799503160661 / 18014398509481984"
  "float64_round (- (1 / 3)) = - (6004799503160661 / 18014398509481984)"
  "float64_round 9007199254740993 = 9007199254740992"
  "float64_round 9007199254740995 = 9007199254740996"
  by (simp_all add: f64_eval)

subsection \<open>Network transfer rates\<close>


lemma buildPrevMap_append:
  "buildPrevMap pm (xs @ ys) = buildPrevMap (buildPrevMap pm xs) ys"
  by (induction xs arbitrary: pm) simp_all

lemma buildPrevMap_lookup:
  "buildPrevMap pm xs n =
     (case find (\<lambda>p. Interface p = n) (rev xs) of None \<Rightarrow> pm n | Some p \<Rightarrow> Some p)"
  by (induction xs rule: rev_induct) (simp_all add: buildPrevMap_append)

lemma rateLoop_append:
  "rateLoop pm rs (xs @ ys) = rateLoop pm (rateLoop pm rs xs) ys"
  by (induction xs arbitrary: rs) simp_all

lemma rateStep_other:
  "Interface c \<noteq> n \<Longrightarrow> rateStep pm rs c n = rs n"
  by (simp add: rateStep_def Let_def split: option.splits)

lemma rateStep_hit:
  assumes "pm (Interface c) = Some p"
    and "0 < Seconds (Sub (NetworkInfo.Timestamp c) (NetworkInfo.Timestamp p))"
  shows "rateStep pm rs c (Interface c) =
     Some \<lparr>SendRate =
             (if BytesSent p \<le> BytesSent c
              then float64_round
                     (float64_round (real (unat (BytesSent c)) - real (unat (BytesSent p)))
                      / Seconds (Sub (NetworkInfo.Timestamp c) (NetworkInfo.Timestamp p)))
              else 0),
           RecvRate =
             (if BytesRecv p \<le> BytesRecv c
              then float64_round
                     (float64_round (real (unat (BytesRecv c)) - real (unat (BytesRecv p)))
                      / Seconds (Sub (NetworkInfo.Timestamp c) (NetworkInfo.Timestamp p)))
              else 0)\<rparr>"
  using assms
  by (simp add: rateStep_def Let_def fdiv_def float64_of_uint64_def unat_sub word_le_nat_alt
      of_nat_diff)

lemma rateLoop_last:
  assumes "find (\<lambda>c. Interface c = n) (rev current) = Some c"
    and "pm n = Some p"
    and "0 < Seconds (Sub (NetworkInfo.Timestamp c) (NetworkInfo.Timestamp p))"
  shows "rateLoop pm rs current n =
     Some \<lparr>SendRate =
             (if BytesSent p \<le> BytesSent c
              then float64_round
                     (float64_round (real (unat (BytesSent c)) - real (unat (BytesSent p)))
                      / Seconds (Sub (NetworkInfo.Timestamp c) (NetworkInfo.Timestamp p)))
              else 0),
           RecvRate =
             (if BytesRecv p \<le> BytesRecv c
              then float64_round
                     (float64_round (real (unat (BytesRecv c)) - real (unat (BytesRecv p)))
                      / Seconds (Sub (NetworkInfo.Timestamp c) (NetworkInfo.Timestamp p)))
              else 0)\<rparr>"
  using assms(1)
proof (induction current rule: rev_induct)
  case Nil
  then show ?case by simp
next
  case (snoc x xs)
  show ?case
  proof (cases "Interface x = n")
    case True
    with snoc.prems have "x = c" by simp
    with True assms(2,3) show ?thesis
      using rateStep_hit [of pm c p "rateLoop pm rs xs"]
      by (simp add: rateLoop_append)
  next
    case False
    with snoc.prems have "find (\<lambda>c. Interface c = n) (rev xs) = Some c" by simp
    with snoc.IH False show ?thesis
      by (simp add: rateLoop_append rateStep_other)
  qed
qed

lemma find_rev_unique:
  assumes "x \<in> set xs" and "\<forall>y\<in>set xs. Interface y = Interface x \<longrightarrow> y = x"
  shows "find (\<lambda>y. Interface y = Interface x) (rev xs) = Some x"
proof (cases "find (\<lambda>y. Interface y = Interface x) (rev xs)")
  case None
  with assms(1) show ?thesis by (auto simp: find_None_iff)
next
  case (Some y)
  then obtain i where "i < length (rev xs)" and "rev xs ! i = y" and "Interface y = Interface x"
    by (auto simp: find_Some_iff)
  then have "y \<in> set xs" and "Interface y = Interface x"
    using nth_mem [of i "rev xs"] by simp_all
  with assms(2) Some show ?thesis by simp
qed

text \<open>The sign of \<open>d.Seconds()\<close> is the sign of \<open>d\<close>, so the test \<open>timeDiff > 0\<close>
  compares the two timestamps.\<close>

lemma quot_rem_pos:
  assumes "0 < d"
  shows "0 \<le> quot d 1000000000" and "0 \<le> rem d 1000000000"
    and "0 < quot d 1000000000 \<or> 0 < rem d 1000000000"
proof -
  have q: "quot d 1000000000 = d div 1000000000" using assms by (simp add: quot_def)
  have r: "rem d 1000000000 = d mod 1000000000"
    unfolding rem_def q by (simp add: minus_div_mult_eq_mod)
  show "0 \<le> quot d 1000000000" using assms by (simp add: q)
  show "0 \<le> rem d 1000000000" by (simp add: r)
  have "d = d div 1000000000 * 1000000000 + d mod 1000000000" by simp
  moreover have "0 \<le> d div 1000000000" "0 \<le> d mod 1000000000" using assms by simp_all
  ultimately show "0 < quot d 1000000000 \<or> 0 < rem d 1000000000"
    unfolding q r using assms by linarith
qed

lemma quot_rem_nonpos:
  assumes "d \<le> 0"
  shows "quot d 1000000000 \<le> 0" and "rem d 1000000000 \<le> 0"
proof -
  have q: "quot d 1000000000 = - ((- d) div 1000000000)"
    using assms by (cases "d = 0") (simp_all add: quot_def)
  have r: "rem d 1000000000 = - ((- d) mod 1000000000)"
    unfolding rem_def q by (simp add: algebra_simps minus_div_mult_eq_mod [symmetric])
  show "quot d 1000000000 \<le> 0" using assms by (simp add: q)
  show "rem d 1000000000 \<le> 0" by (simp add: r)
qed

lemma Seconds_pos: "0 < Seconds d \<longleftrightarrow> 0 < d"
proof (cases "0 < d")
  case True
  note qr = quot_rem_pos [OF True]
  define a where "a = float64_of_int (quot d 1000000000)"
  define b where "b = fdiv (float64_of_int (rem d 1000000000)) 1000000000"
  have a: "0 \<le> a" "0 < quot d 1000000000 \<Longrightarrow> 0 < a"
    using qr(1) by (simp_all add: a_def float64_of_int_def float64_round_nonneg_iff float64_round_pos_iff)
  have b: "0 \<le> b" "0 < rem d 1000000000 \<Longrightarrow> 0 < b"
    using qr(2) by (simp_all add: b_def fdiv_def float64_of_int_def float64_round_nonneg_iff
        float64_round_pos_iff)
  have "0 < a + b" using a b qr(3) by fastforce
  then show ?thesis using True
    by (simp add: Seconds_def Let_def fadd_def a_def [symmetric] b_def [symmetric] float64_round_pos_iff)
next
  case False
  then have d: "d \<le> 0" by simp
  note qr = quot_rem_nonpos [OF d]
  define a where "a = float64_of_int (quot d 1000000000)"
  define b where "b = fdiv (float64_of_int (rem d 1000000000)) 1000000000"
  have a: "\<not> 0 < a"
    using qr(1) by (simp add: a_def float64_of_int_def float64_round_pos_iff)
  have b: "\<not> 0 < b"
    using qr(2) by (simp add: b_def fdiv_def float64_of_int_def float64_round_pos_iff)
  have "\<not> 0 < a + b" using a b by simp
  then show ?thesis using False
    by (simp add: Seconds_def Let_def fadd_def a_def [symmetric] b_def [symmetric] float64_round_pos_iff)
qed

lemma Seconds_pos_iff: "0 < Seconds (Sub t u) \<longleftrightarrow> u < t"
  by (simp add: Seconds_pos Sub_def Let_def minDuration_def maxDuration_def)

lemma Sub_pos_iff: "0 < Sub t u \<longleftrightarrow> u < t"
  by (simp add: Sub_def Let_def minDuration_def maxDuration_def)

text \<open>The accuracy of the computed rate. Each of the six roundings on the way (two
  conversions, the division and the sum in \<open>Seconds\<close>, the conversion of the counter
  increase, and the final division) contributes a relative error of at most \<open>1 / 2 ^ 53\<close>.\<close>

lemma float64_round_between:
  assumes "0 \<le> lo" and "lo \<le> x" and "x \<le> hi" and "E = 1 / 2 ^ 53"
  shows "lo * (1 - E) \<le> float64_round x" and "float64_round x \<le> hi * (1 + E)"
proof -
  have E: "0 < E" "E < 1" using assms(4) by simp_all
  have x: "0 \<le> x" using assms(1,2) by simp
  have eq: "\<bar>x\<bar> / 2 ^ 53 = x * E" using x by (simp add: assms(4))
  have "\<bar>float64_round x - x\<bar> \<le> x * E"
    using float64_round_relative_error [of x] unfolding eq .
  then have b: "x * (1 - E) \<le> float64_round x" "float64_round x \<le> x * (1 + E)"
    by (simp_all add: algebra_simps abs_le_iff)
  have "lo * (1 - E) \<le> x * (1 - E)" using assms(2) E by (intro mult_right_mono) simp_all
  with b(1) show "lo * (1 - E) \<le> float64_round x" by simp
  have "x * (1 + E) \<le> hi * (1 + E)" using assms(3) E by (intro mult_right_mono) simp_all
  with b(2) show "float64_round x \<le> hi * (1 + E)" by simp
qed

lemma Seconds_accuracy:
  assumes "0 < d" and "E = 1 / 2 ^ 53" and "T = real_of_int d / 1000000000"
  shows "T * (1 - E) ^ 3 \<le> Seconds d" and "Seconds d \<le> T * (1 + E) ^ 3"
proof -
  have E: "0 < E" "E < 1" using assms(2) by simp_all
  note qr = quot_rem_pos [OF assms(1)]
  define sec where "sec = real_of_int (quot d 1000000000)"
  define nsec where "nsec = real_of_int (rem d 1000000000)"
  define N where "N = nsec / 1000000000"
  have nn: "0 \<le> sec" "0 \<le> nsec" "0 \<le> N" using qr(1,2) by (simp_all add: sec_def nsec_def N_def)
  have "real_of_int d = real_of_int (quot d 1000000000 * 1000000000 + rem d 1000000000)"
    by (simp add: rem_def)
  then have T: "T = sec + N" by (simp add: assms(3) sec_def nsec_def N_def)
  define s1 where "s1 = float64_of_int (quot d 1000000000)"
  define n1 where "n1 = float64_of_int (rem d 1000000000)"
  define q where "q = fdiv n1 1000000000"
  have s1: "sec * (1 - E) \<le> s1" "s1 \<le> sec * (1 + E)"
    using float64_round_between [OF nn(1) order_refl order_refl assms(2)]
    by (simp_all add: s1_def float64_of_int_def sec_def)
  have n1: "nsec * (1 - E) \<le> n1" "n1 \<le> nsec * (1 + E)"
    using float64_round_between [OF nn(2) order_refl order_refl assms(2)]
    by (simp_all add: n1_def float64_of_int_def nsec_def)
  have lo0: "0 \<le> N * (1 - E)" using nn(3) E by simp
  have "N * (1 - E) \<le> n1 / 1000000000" "n1 / 1000000000 \<le> N * (1 + E)"
    using n1 by (simp_all add: N_def)
  from float64_round_between [OF lo0 this assms(2)]
  have q: "N * (1 - E) * (1 - E) \<le> q" "q \<le> N * (1 + E) * (1 + E)"
    by (simp_all add: q_def fdiv_def)
  have "sec * (1 - E) * (1 - E) \<le> sec * (1 - E) * 1"
    using nn(1) E by (intro mult_left_mono) simp_all
  with s1(1) have s1lo: "sec * (1 - E) * (1 - E) \<le> s1" by simp
  have "sec * (1 + E) * 1 \<le> sec * (1 + E) * (1 + E)"
    using nn(1) E by (intro mult_left_mono) simp_all
  with s1(2) have s1hi: "s1 \<le> sec * (1 + E) * (1 + E)" by simp
  have lo: "T * (1 - E) * (1 - E) \<le> s1 + q" using s1lo q(1) by (simp add: T algebra_simps)
  have hi: "s1 + q \<le> T * (1 + E) * (1 + E)" using s1hi q(2) by (simp add: T algebra_simps)
  have T0: "0 \<le> T * (1 - E) * (1 - E)" using nn E by (simp add: T)
  from float64_round_between [OF T0 lo hi assms(2)]
  have "T * (1 - E) * (1 - E) * (1 - E) \<le> Seconds d" "Seconds d \<le> T * (1 + E) * (1 + E) * (1 + E)"
    by (simp_all add: Seconds_def Let_def fadd_def s1_def n1_def q_def)
  then show "T * (1 - E) ^ 3 \<le> Seconds d" and "Seconds d \<le> T * (1 + E) ^ 3"
    by (simp_all add: power3_eq_cube algebra_simps)
qed


lemma rate_accuracy:
  assumes "0 < d" and "0 \<le> D" and "T = real_of_int d / 1000000000"
  shows "\<bar>float64_round (float64_round D / Seconds d) - D / T\<bar> \<le> D / T / 2 ^ 50"
proof -
  define E :: real where "E = 1 / 2 ^ 53"
  have E: "0 < E" "E < 1" by (simp_all add: E_def)
  have T: "0 < T" using assms(1,3) by simp
  define cl where "cl = (1 - E) * (1 - E) / (1 + E) ^ 3"
  define ch where "ch = (1 + E) * (1 + E) / (1 - E) ^ 3"
  have c: "1 - 1 / 2 ^ 50 \<le> cl" "ch \<le> 1 + 1 / 2 ^ 50"
    by (simp_all add: cl_def ch_def E_def power3_eq_cube)
  note S = Seconds_accuracy [OF assms(1) E_def assms(3)]
  have p3: "0 < (1 - E) ^ 3" "0 < (1 + E) ^ 3" using E by simp_all
  have Slo: "0 < T * (1 - E) ^ 3" using T p3 by simp
  have Spos: "0 < Seconds d" using assms(1) by (simp add: Seconds_pos)
  note a = float64_round_between [OF assms(2) order_refl order_refl E_def]
  have a0: "0 \<le> D * (1 - E)" using assms(2) E by simp
  have a1: "0 \<le> float64_round D" using a0 a(1) by simp
  have a2: "0 \<le> D * (1 + E)" using assms(2) E by simp
  have lo: "D * (1 - E) / (T * (1 + E) ^ 3) \<le> float64_round D / Seconds d"
    by (rule frac_le [OF a1 a(1) Spos S(2)])
  have hi: "float64_round D / Seconds d \<le> D * (1 + E) / (T * (1 - E) ^ 3)"
    by (rule frac_le [OF a2 a(2) Slo S(1)])
  have lo0: "0 \<le> D * (1 - E) / (T * (1 + E) ^ 3)" using a0 T p3 by simp
  note r = float64_round_between [OF lo0 lo hi E_def]
  define R where "R = D / T"
  have R: "0 \<le> R" using assms(2) T by (simp add: R_def)
  have "D * (1 - E) / (T * (1 + E) ^ 3) * (1 - E) = R * cl"
    by (simp add: R_def cl_def)
  with r(1) have rl: "R * cl \<le> float64_round (float64_round D / Seconds d)" by simp
  have "D * (1 + E) / (T * (1 - E) ^ 3) * (1 + E) = R * ch"
    by (simp add: R_def ch_def)
  with r(2) have rh: "float64_round (float64_round D / Seconds d) \<le> R * ch" by simp
  define q where "q = R / 2 ^ 50"
  have "R * (1 - 1 / 2 ^ 50) \<le> R * cl" using c(1) R by (rule mult_left_mono)
  moreover have "R * (1 - 1 / 2 ^ 50) = R - q" by (simp add: q_def algebra_simps)
  ultimately have l: "R - q \<le> float64_round (float64_round D / Seconds d)"
    using rl by linarith
  have "R * ch \<le> R * (1 + 1 / 2 ^ 50)" using c(2) R by (rule mult_left_mono)
  moreover have "R * (1 + 1 / 2 ^ 50) = R + q" by (simp add: q_def algebra_simps)
  ultimately have h: "float64_round (float64_round D / Seconds d) \<le> R + q"
    using rh by linarith
  from l h have "\<bar>float64_round (float64_round D / Seconds d) - R\<bar> \<le> q" by linarith
  then show ?thesis by (simp only: q_def R_def)
qed

lemma Sub_in_range:
  "minDuration \<le> t - u \<Longrightarrow> t - u \<le> maxDuration \<Longrightarrow> Sub t u = t - u"
  by (simp add: Sub_def Let_def)

text \<open>
  Claim C1, as amended. Let \<open>name\<close> be an interface name that occurs in both
  measurements, \<open>prev\<close> and \<open>cur\<close> its entries there, the timestamp of \<open>cur\<close> be later
  than that of \<open>prev\<close>, and \<open>dt\<close> be the \<open>float64\<close> number of seconds between them
  (\<open>Seconds\<close> of the difference). Then \<open>dt\<close> is positive and the rate calculation (of the
  network model and of the collector alike) holds an entry for \<open>name\<close>. Its send rate is
  the \<open>float64\<close> quotient of the increase of the sent counter, converted to \<open>float64\<close>, by
  \<open>dt\<close> when the counter has not decreased, and exactly 0 when it has; and likewise,
  independently, for the receive rate. Conversion and division each round to the nearest
  \<open>float64\<close>, so the rate is the rounded quotient and not in general the exact one; it
  differs from the exact quotient of the increase by the seconds between the timestamps
  (\<open>secs\<close>, the \<open>Duration\<close> that \<open>Sub\<close> returns, in seconds) by at most the fraction
  \<open>1 / 2 ^ 50\<close> of that quotient. The function is total: no input makes it fail.

  The entry of a measurement for a name is the last one in the list that carries the name
  (the one a Go map filled from the list holds); by \<open>find_rev_unique\<close> it is the only
  one when the name occurs once.
\<close>

theorem calculateRates_shared_interface:
  assumes "find (\<lambda>p. Interface p = name) (rev previous) = Some prev"
    and "find (\<lambda>c. Interface c = name) (rev current) = Some cur"
    and "NetworkInfo.Timestamp prev < NetworkInfo.Timestamp cur"
    and "dt = Seconds (Sub (NetworkInfo.Timestamp cur) (NetworkInfo.Timestamp prev))"
    and "secs = real_of_int (Sub (NetworkInfo.Timestamp cur) (NetworkInfo.Timestamp prev))
                / 1000000000"
    and "sent = real (unat (BytesSent cur)) - real (unat (BytesSent prev))"
    and "recv = real (unat (BytesRecv cur)) - real (unat (BytesRecv prev))"
  shows "0 < dt
         \<and> calculateRates previous current name =
           Some \<lparr>SendRate =
                   (if BytesSent cur \<ge> BytesSent prev
                    then float64_round (float64_round sent / dt)
                    else 0),
                 RecvRate =
                   (if BytesRecv cur \<ge> BytesRecv prev
                    then float64_round (float64_round recv / dt)
                    else 0)\<rparr>
         \<and> CalculateNetworkRates previous current name = calculateRates previous current name
         \<and> (BytesSent cur \<ge> BytesSent prev \<longrightarrow>
              \<bar>float64_round (float64_round sent / dt) - sent / secs\<bar> \<le> sent / secs / 2 ^ 50)
         \<and> (BytesRecv cur \<ge> BytesRecv prev \<longrightarrow>
              \<bar>float64_round (float64_round recv / dt) - recv / secs\<bar> \<le> recv / secs / 2 ^ 50)"
proof -
  have dt: "0 < dt" using assms(3,4) by (simp add: Seconds_pos_iff)
  have d: "0 < Sub (NetworkInfo.Timestamp cur) (NetworkInfo.Timestamp prev)"
    using assms(3) by (simp add: Sub_pos_iff)
  have "buildPrevMap Map.empty previous name = Some prev"
    using assms(1) by (simp add: buildPrevMap_lookup)
  then have r: "calculateRates previous current name =
           Some \<lparr>SendRate =
                   (if BytesSent cur \<ge> BytesSent prev
                    then float64_round (float64_round sent / dt)
                    else 0),
                 RecvRate =
                   (if BytesRecv cur \<ge> BytesRecv prev
                    then float64_round (float64_round recv / dt)
                    else 0)\<rparr>"
    using rateLoop_last [OF assms(2), of "buildPrevMap Map.empty previous" prev Map.empty]
      assms(4,6,7) dt
    by (simp add: calculateRates_def)
  have e: "CalculateNetworkRates previous current name = calculateRates previous current name"
    by (simp add: calculateRates_def CalculateNetworkRates_def)
  have s: "\<bar>float64_round (float64_round sent / dt) - sent / secs\<bar> \<le> sent / secs / 2 ^ 50"
    if "BytesSent cur \<ge> BytesSent prev"
  proof -
    from that have "unat (BytesSent prev) \<le> unat (BytesSent cur)" by (simp add: word_le_nat_alt)
    then have "real (unat (BytesSent prev)) \<le> real (unat (BytesSent cur))" by (rule of_nat_mono)
    then have "0 \<le> sent" unfolding assms(6) by linarith
    from rate_accuracy [OF d this assms(5)] show ?thesis unfolding assms(4) .
  qed
  have v: "\<bar>float64_round (float64_round recv / dt) - recv / secs\<bar> \<le> recv / secs / 2 ^ 50"
    if "BytesRecv cur \<ge> BytesRecv prev"
  proof -
    from that have "unat (BytesRecv prev) \<le> unat (BytesRecv cur)" by (simp add: word_le_nat_alt)
    then have "real (unat (BytesRecv prev)) \<le> real (unat (BytesRecv cur))" by (rule of_nat_mono)
    then have "0 \<le> recv" unfolding assms(7) by linarith
    from rate_accuracy [OF d this assms(5)] show ?thesis unfolding assms(4) .
  qed
  from dt r e s v show ?thesis by blast
qed

theorem calculateRates_shared_interface_witness:
  "(0::int) < 1000000000
   \<and> 0 < Seconds (Sub 1000000000 0)
   \<and> calculateRates
       [\<lparr>Interface = ''eth0'', BytesSent = 1000000, BytesRecv = 2000000, PacketsSent = 10,
         PacketsRecv = 20, NetworkInfo.Timestamp = 0\<rparr>]
       [\<lparr>Interface = ''eth0'', BytesSent = 1001024, BytesRecv = 1000, PacketsSent = 11,
         PacketsRecv = 21, NetworkInfo.Timestamp = 1000000000\<rparr>] ''eth0''
     = Some \<lparr>SendRate = 1024, RecvRate = 0\<rparr>"
proof -
  let ?p = "\<lparr>Interface = ''eth0'', BytesSent = 1000000, BytesRecv = 2000000, PacketsSent = 10,
         PacketsRecv = 20, NetworkInfo.Timestamp = 0\<rparr>"
  let ?c = "\<lparr>Interface = ''eth0'', BytesSent = 1001024, BytesRecv = 1000, PacketsSent = 11,
         PacketsRecv = 21, NetworkInfo.Timestamp = 1000000000\<rparr>"
  have p: "find (\<lambda>p. Interface p = ''eth0'') (rev [?p]) = Some ?p" by simp
  have c: "find (\<lambda>c. Interface c = ''eth0'') (rev [?c]) = Some ?c" by simp
  have t: "NetworkInfo.Timestamp ?p < NetworkInfo.Timestamp ?c" by simp
  have dt: "Seconds (Sub (NetworkInfo.Timestamp ?c) (NetworkInfo.Timestamp ?p)) = 1"
    by (simp add: Seconds_def Sub_def minDuration_def maxDuration_def quot_def rem_def
        float64_of_int_def fadd_def fdiv_def f64_eval)
  have r: "float64_round 1024 = 1024" by (simp add: f64_eval)
  show ?thesis
    using calculateRates_shared_interface [OF p c t refl refl refl refl] dt r by simp
qed

text \<open>
  The rate is not the exact quotient. One byte sent in three seconds gives the \<open>float64\<close>
  nearest to a third, which is not a third; one byte sent in one nanosecond gives
  999999999.9999999 and not \<open>10\<^sup>9\<close>, because the nanosecond itself is rounded when it is
  converted to seconds.
\<close>

theorem calculateRates_not_exact_quotient:
  "calculateRates
     [\<lparr>Interface = ''eth0'', BytesSent = 0, BytesRecv = 0, PacketsSent = 0,
       PacketsRecv = 0, NetworkInfo.Timestamp = 0\<rparr>]
     [\<lparr>Interface = ''eth0'', BytesSent = 1, BytesRecv = 0, PacketsSent = 1,
       PacketsRecv = 0, NetworkInfo.Timestamp = 3000000000\<rparr>] ''eth0''
     = Some \<lparr>SendRate = 6004799503160661 / 18014398509481984, RecvRate = 0\<rparr>
   \<and> calculateRates
     [\<lparr>Interface = ''eth0'', BytesSent = 0, BytesRecv = 0, PacketsSent = 0,
       PacketsRecv = 0, NetworkInfo.Timestamp = 0\<rparr>]
     [\<lparr>Interface = ''eth0'', BytesSent = 1, BytesRecv = 0, PacketsSent = 1,
       PacketsRecv = 0, NetworkInfo.Timestamp = 3000000000\<rparr>] ''eth0''
     \<noteq> Some \<lparr>SendRate = (1 - 0) / 3, RecvRate = 0\<rparr>
   \<and> calculateRates
     [\<lparr>Interface = ''eth0'', BytesSent = 0, BytesRecv = 0, PacketsSent = 0,
       PacketsRecv = 0, NetworkInfo.Timestamp = 0\<rparr>]
     [\<lparr>Interface = ''eth0'', BytesSent = 1, BytesRecv = 0, PacketsSent = 1,
       PacketsRecv = 0, NetworkInfo.Timestamp = 1\<rparr>] ''eth0''
     = Some \<lparr>SendRate = 8388607999999999 / 8388608, RecvRate = 0\<rparr>
   \<and> calculateRates
     [\<lparr>Interface = ''eth0'', BytesSent = 0, BytesRecv = 0, PacketsSent = 0,
       PacketsRecv = 0, NetworkInfo.Timestamp = 0\<rparr>]
     [\<lparr>Interface = ''eth0'', BytesSent = 1, BytesRecv = 0, PacketsSent = 1,
       PacketsRecv = 0, NetworkInfo.Timestamp = 1\<rparr>] ''eth0''
     \<noteq> Some \<lparr>SendRate = (1 - 0) / (1 / 1000000000), RecvRate = 0\<rparr>"
proof -
  have s3: "Seconds (Sub 3000000000 0) = 3"
    by (simp add: Seconds_def Sub_def minDuration_def maxDuration_def quot_def rem_def
        float64_of_int_def fadd_def fdiv_def f64_eval)
  have s1: "Seconds (Sub 1 0) = 4835703278458517 / 4835703278458516698824704"
    by (simp add: Seconds_def Sub_def minDuration_def maxDuration_def quot_def rem_def
        float64_of_int_def fadd_def fdiv_def f64_eval)
  have r: "float64_round 1 = 1" "float64_round 0 = 0"
    "float64_round (1 / 3) = 6004799503160661 / 18014398509481984"
    "float64_round (4835703278458516698824704 / 4835703278458517) = 8388607999999999 / 8388608"
    by (simp_all add: f64_eval)
  show ?thesis
    by (simp add: calculateRates_def rateStep_def s3 s1 fdiv_def float64_of_uint64_def r)
qed

subsection \<open>Error containment and recovery\<close>

lemma MainModel_run_append:
  "MainModel_run m (xs @ ys) =
     (case MainModel_run m xs of Inl p \<Rightarrow> Inl p | Inr m' \<Rightarrow> MainModel_run m' ys)"
  by (induction m xs rule: MainModel_run.induct) (simp_all split: sum.splits)

lemma CPUModel_Update_error:
  "CPUModel_Update m (ErrorMsg e) =
     Inr (if Component e = ''CPU''
          then m\<lparr>CPUModel.hasError := True, CPUModel.errorMessage := Message e,
                 CPUModel.lastError := SystemError.Timestamp e\<rparr>
          else m, CmdNil)"
  by (simp add: CPUModel_Update_def)

lemma MemoryModel_Update_error:
  "MemoryModel_Update m (ErrorMsg e) =
     (if Component e = ''Memory''
      then m\<lparr>MemoryModel.hasError := True, MemoryModel.errorMessage := Message e,
             MemoryModel.lastError := SystemError.Timestamp e\<rparr>
      else m, CmdNil)"
  by (simp add: MemoryModel_Update_def)

lemma DiskModel_Update_error:
  "DiskModel_Update m now (ErrorMsg e) =
     (if Component e = ''Disk''
      then m\<lparr>DiskModel.hasError := True, DiskModel.errorMessage := Message e,
             DiskModel.lastError := SystemError.Timestamp e\<rparr>
      else m, CmdNil)"
  by (simp add: DiskModel_Update_def)

lemma NetworkModel_Update_error:
  "NetworkModel_Update m now (ErrorMsg e) =
     (if Component e = ''Network''
      then m\<lparr>NetworkModel.hasError := True, NetworkModel.errorMessage := Message e,
             NetworkModel.lastError := SystemError.Timestamp e\<rparr>
      else m, CmdNil)"
  by (simp add: NetworkModel_Update_def)




lemma MainModel_Update_error:
  "MainModel_Update m now (ErrorMsg e) =
     Inr (if Component e = ''CPU'' then m\<lparr>cpu := fst (projr (CPUModel_Update (cpu m) (ErrorMsg e)))\<rparr>
          else if Component e = ''Memory'' then m\<lparr>memory := fst (MemoryModel_Update (memory m) (ErrorMsg e))\<rparr>
          else if Component e = ''Disk'' then m\<lparr>disk := fst (DiskModel_Update (disk m) now (ErrorMsg e))\<rparr>
          else if Component e = ''Network'' then m\<lparr>network := fst (NetworkModel_Update (network m) now (ErrorMsg e))\<rparr>
          else m, Batch [])"
  by (simp add: MainModel_Update_def CPUModel_Update_error MemoryModel_Update_error
      DiskModel_Update_error NetworkModel_Update_error)

text \<open>A run of error events changes nothing but the error status of the components:
  with the three status fields overwritten, the components are as before.\<close>

lemma error_step_keeps_data:
  assumes "MainModel_Update m now (ErrorMsg e) = Inr (m1, c)"
  shows "(cpu m1)\<lparr>CPUModel.hasError := False, CPUModel.errorMessage := [], CPUModel.lastError := 0\<rparr>
           = (cpu m)\<lparr>CPUModel.hasError := False, CPUModel.errorMessage := [], CPUModel.lastError := 0\<rparr>"
    and "(memory m1)\<lparr>MemoryModel.hasError := False, MemoryModel.errorMessage := [], MemoryModel.lastError := 0\<rparr>
           = (memory m)\<lparr>MemoryModel.hasError := False, MemoryModel.errorMessage := [], MemoryModel.lastError := 0\<rparr>"
    and "(disk m1)\<lparr>DiskModel.hasError := False, DiskModel.errorMessage := [], DiskModel.lastError := 0\<rparr>
           = (disk m)\<lparr>DiskModel.hasError := False, DiskModel.errorMessage := [], DiskModel.lastError := 0\<rparr>"
    and "(network m1)\<lparr>NetworkModel.hasError := False, NetworkModel.errorMessage := [], NetworkModel.lastError := 0\<rparr>
           = (network m)\<lparr>NetworkModel.hasError := False, NetworkModel.errorMessage := [], NetworkModel.lastError := 0\<rparr>"
    and "m1\<lparr>cpu := cpu m, memory := memory m, disk := disk m, network := network m\<rparr> = m"
  using assms
  by (auto simp add: MainModel_Update_error CPUModel_Update_error MemoryModel_Update_error
      DiskModel_Update_error NetworkModel_Update_error split: if_splits)


lemma error_run_keeps_data:
  "\<exists>m'. MainModel_run m (map (\<lambda>(t, e). (t, ErrorMsg e)) es) = Inr m'
     \<and> (cpu m')\<lparr>CPUModel.hasError := False, CPUModel.errorMessage := [], CPUModel.lastError := 0\<rparr>
           = (cpu m)\<lparr>CPUModel.hasError := False, CPUModel.errorMessage := [], CPUModel.lastError := 0\<rparr>
     \<and> (memory m')\<lparr>MemoryModel.hasError := False, MemoryModel.errorMessage := [], MemoryModel.lastError := 0\<rparr>
           = (memory m)\<lparr>MemoryModel.hasError := False, MemoryModel.errorMessage := [], MemoryModel.lastError := 0\<rparr>
     \<and> (disk m')\<lparr>DiskModel.hasError := False, DiskModel.errorMessage := [], DiskModel.lastError := 0\<rparr>
           = (disk m)\<lparr>DiskModel.hasError := False, DiskModel.errorMessage := [], DiskModel.lastError := 0\<rparr>
     \<and> (network m')\<lparr>NetworkModel.hasError := False, NetworkModel.errorMessage := [], NetworkModel.lastError := 0\<rparr>
           = (network m)\<lparr>NetworkModel.hasError := False, NetworkModel.errorMessage := [], NetworkModel.lastError := 0\<rparr>
     \<and> m'\<lparr>cpu := cpu m, memory := memory m, disk := disk m, network := network m\<rparr> = m"
proof (induction es arbitrary: m)
  case Nil
  show ?case by simp
next
  case (Cons te es)
  obtain t e where te: "te = (t, e)" by (cases te)
  obtain m1 where step: "MainModel_Update m t (ErrorMsg e) = Inr (m1, Batch [])"
    by (simp add: MainModel_Update_error)
  note keep = error_step_keeps_data [OF step]
  from Cons.IH [of m1] obtain m' where
    run: "MainModel_run m1 (map (\<lambda>(t, e). (t, ErrorMsg e)) es) = Inr m'"
    and c: "(cpu m')\<lparr>CPUModel.hasError := False, CPUModel.errorMessage := [], CPUModel.lastError := 0\<rparr>
           = (cpu m1)\<lparr>CPUModel.hasError := False, CPUModel.errorMessage := [], CPUModel.lastError := 0\<rparr>"
    and me: "(memory m')\<lparr>MemoryModel.hasError := False, MemoryModel.errorMessage := [], MemoryModel.lastError := 0\<rparr>
           = (memory m1)\<lparr>MemoryModel.hasError := False, MemoryModel.errorMessage := [], MemoryModel.lastError := 0\<rparr>"
    and d: "(disk m')\<lparr>DiskModel.hasError := False, DiskModel.errorMessage := [], DiskModel.lastError := 0\<rparr>
           = (disk m1)\<lparr>DiskModel.hasError := False, DiskModel.errorMessage := [], DiskModel.lastError := 0\<rparr>"
    and n: "(network m')\<lparr>NetworkModel.hasError := False, NetworkModel.errorMessage := [], NetworkModel.lastError := 0\<rparr>
           = (network m1)\<lparr>NetworkModel.hasError := False, NetworkModel.errorMessage := [], NetworkModel.lastError := 0\<rparr>"
    and rest: "m'\<lparr>cpu := cpu m1, memory := memory m1, disk := disk m1, network := network m1\<rparr> = m1"
    by blast
  have "MainModel_run m (map (\<lambda>(t, e). (t, ErrorMsg e)) (te # es)) = Inr m'"
    using run step by (simp add: te)
  moreover have "m'\<lparr>cpu := cpu m, memory := memory m, disk := disk m, network := network m\<rparr> = m"
  proof -
    have "m'\<lparr>cpu := cpu m, memory := memory m, disk := disk m, network := network m\<rparr>
          = (m'\<lparr>cpu := cpu m1, memory := memory m1, disk := disk m1, network := network m1\<rparr>)
              \<lparr>cpu := cpu m, memory := memory m, disk := disk m, network := network m\<rparr>"
      by simp
    then show ?thesis using rest keep(5) by simp
  qed
  ultimately show ?case
    using c me d n keep(1-4) by simp
qed


lemma CPUModel_Update_success:
  assumes "makeslice_ok (maxHistory m)"
  shows "CPUModel_Update m (CPUUpdateMsg info) =
           Inr (m\<lparr>CPUModel.hasError := False, CPUModel.errorMessage := [],
                  usage := Usage info, CPUModel.total := CPUInfo.Total info,
                  cores := Cores info, CPUModel.lastUpdate := CPUInfo.Timestamp info,
                  history :=
                    (if Usage info = [] then history m
                     else appendUsage
                            (if history m = [] then replicate (length (Usage info)) []
                             else history m)
                            (maxHistory m) 0 (Usage info))\<rparr>, CmdNil)"
  using assms by (simp add: CPUModel_Update_def Let_def)

text \<open>
  Claim C3. From any state, after any number of error events (for any components, at any
  instants), a successful sample of a component leaves that component with its error flag
  false, its error message empty and the data of the sample in place of the old data.
  For the CPU component this needs the history capacity \<open>maxHistory\<close> to be one that
  \<open>make\<close> accepts, which holds for the 60 that \<open>NewCPUModel\<close> sets and no function
  changes.
\<close>

theorem successful_sample_clears_error:
  "(\<exists>m'. MainModel_run m (map (\<lambda>(t, e). (t, ErrorMsg e)) es @ [(now, DiskUpdateMsg fs)]) = Inr m'
       \<and> \<not> DiskModel.hasError (disk m') \<and> DiskModel.errorMessage (disk m') = []
       \<and> filesystems (disk m') = fs)
   \<and> (\<exists>m'. MainModel_run m (map (\<lambda>(t, e). (t, ErrorMsg e)) es @ [(now, NetworkUpdateMsg ifs)]) = Inr m'
       \<and> \<not> NetworkModel.hasError (network m') \<and> NetworkModel.errorMessage (network m') = []
       \<and> interfaces (network m') = ifs \<and> previousData (network m') = interfaces (network m))
   \<and> (\<exists>m'. MainModel_run m (map (\<lambda>(t, e). (t, ErrorMsg e)) es @ [(now, MemoryUpdateMsg mi)]) = Inr m'
       \<and> \<not> MemoryModel.hasError (memory m') \<and> MemoryModel.errorMessage (memory m') = []
       \<and> MemoryModel.total (memory m') = MemoryInfo.Total mi \<and> used (memory m') = MemoryInfo.Used mi
       \<and> available (memory m') = MemoryInfo.Available mi \<and> swap (memory m') = Swap mi)
   \<and> (makeslice_ok (maxHistory (cpu m)) \<longrightarrow>
       (\<exists>m'. MainModel_run m (map (\<lambda>(t, e). (t, ErrorMsg e)) es @ [(now, CPUUpdateMsg ci)]) = Inr m'
       \<and> \<not> CPUModel.hasError (cpu m') \<and> CPUModel.errorMessage (cpu m') = []
       \<and> usage (cpu m') = Usage ci \<and> CPUModel.total (cpu m') = CPUInfo.Total ci
       \<and> cores (cpu m') = Cores ci))"
proof -
  obtain m1 where run: "MainModel_run m (map (\<lambda>(t, e). (t, ErrorMsg e)) es) = Inr m1"
    and c: "(cpu m1)\<lparr>CPUModel.hasError := False, CPUModel.errorMessage := [], CPUModel.lastError := 0\<rparr>
           = (cpu m)\<lparr>CPUModel.hasError := False, CPUModel.errorMessage := [], CPUModel.lastError := 0\<rparr>"
    and n: "(network m1)\<lparr>NetworkModel.hasError := False, NetworkModel.errorMessage := [], NetworkModel.lastError := 0\<rparr>
           = (network m)\<lparr>NetworkModel.hasError := False, NetworkModel.errorMessage := [], NetworkModel.lastError := 0\<rparr>"
    using error_run_keeps_data [of m es] by blast
  have maxH: "maxHistory (cpu m1) = maxHistory (cpu m)"
    using arg_cong [OF c, of maxHistory] by simp
  have ifs: "interfaces (network m1) = interfaces (network m)"
    using arg_cong [OF n, of interfaces] by simp
  have d: "\<exists>m'. MainModel_run m1 [(now, DiskUpdateMsg fs)] = Inr m'
       \<and> \<not> DiskModel.hasError (disk m') \<and> DiskModel.errorMessage (disk m') = []
       \<and> filesystems (disk m') = fs"
    by (simp add: MainModel_Update_def DiskModel_Update_def)
  have nw: "\<exists>m'. MainModel_run m1 [(now, NetworkUpdateMsg ifs)] = Inr m'
       \<and> \<not> NetworkModel.hasError (network m') \<and> NetworkModel.errorMessage (network m') = []
       \<and> interfaces (network m') = ifs \<and> previousData (network m') = interfaces (network m)"
    by (simp add: MainModel_Update_def NetworkModel_Update_def Let_def ifs)
  have mem: "\<exists>m'. MainModel_run m1 [(now, MemoryUpdateMsg mi)] = Inr m'
       \<and> \<not> MemoryModel.hasError (memory m') \<and> MemoryModel.errorMessage (memory m') = []
       \<and> MemoryModel.total (memory m') = MemoryInfo.Total mi \<and> used (memory m') = MemoryInfo.Used mi
       \<and> available (memory m') = MemoryInfo.Available mi \<and> swap (memory m') = Swap mi"
    by (simp add: MainModel_Update_def MemoryModel_Update_def)
  have cp: "\<exists>m'. MainModel_run m1 [(now, CPUUpdateMsg ci)] = Inr m'
       \<and> \<not> CPUModel.hasError (cpu m') \<and> CPUModel.errorMessage (cpu m') = []
       \<and> usage (cpu m') = Usage ci \<and> CPUModel.total (cpu m') = CPUInfo.Total ci
       \<and> cores (cpu m') = Cores ci" if "makeslice_ok (maxHistory (cpu m))"
  proof -
    from that maxH have "makeslice_ok (maxHistory (cpu m1))" by simp
    from CPUModel_Update_success [OF this, of ci] show ?thesis
      by (simp add: MainModel_Update_def)
  qed
  show ?thesis
    using d nw mem cp by (simp add: MainModel_run_append run)
qed


theorem successful_sample_clears_error_witness:
  "makeslice_ok (maxHistory (cpu (NewMainModel 0 0)))
   \<and> (\<exists>m'. MainModel_run (NewMainModel 0 0)
         (map (\<lambda>(t, e). (t, ErrorMsg e))
            [(1, \<lparr>Type = PermissionError, Message = ''denied'', Component = ''CPU'',
                  SystemError.Timestamp = 1, Original = None\<rparr>),
             (2, \<lparr>Type = TemporaryError, Message = ''timeout'', Component = ''CPU'',
                  SystemError.Timestamp = 2, Original = None\<rparr>)]
          @ [(3, CPUUpdateMsg \<lparr>Cores = 2, Usage = [30, 40], CPUInfo.Total = 35,
                                 CPUInfo.Timestamp = 3\<rparr>)]) = Inr m'
       \<and> \<not> CPUModel.hasError (cpu m') \<and> CPUModel.errorMessage (cpu m') = []
       \<and> usage (cpu m') = [30, 40] \<and> CPUModel.total (cpu m') = 35 \<and> cores (cpu m') = 2)"
  using successful_sample_clears_error [of "NewMainModel 0 0"
      "[(1, \<lparr>Type = PermissionError, Message = ''denied'', Component = ''CPU'',
                  SystemError.Timestamp = 1, Original = None\<rparr>),
        (2, \<lparr>Type = TemporaryError, Message = ''timeout'', Component = ''CPU'',
                  SystemError.Timestamp = 2, Original = None\<rparr>)]"
      3 _ _ _ "\<lparr>Cores = 2, Usage = [30, 40], CPUInfo.Total = 35, CPUInfo.Timestamp = 3\<rparr>"]
  by (simp add: NewMainModel_def NewMainModelWithConfig_def NewCPUModel_def makeslice_ok_def)

subsection \<open>Layout\<close>

text \<open>
  Claim C7. For every viewport size held by the style manager, the layout selector
  \<open>RenderResponsiveLayout\<close> produces the stacked presentation (the vertical join of the
  components that are not blank) exactly when the width is below 80 or the height below
  24, and the 2x2 grid (two horizontal rows of two, joined vertically) otherwise. In
  particular 79x24, 80x23 and 60x20 are small terminals and 80x24 and 120x40 are not.
\<close>

theorem layout_selector:
  "RenderResponsiveLayout tk s components =
     (if StyleManager.width s < 80 \<or> StyleManager.height s < 24
      then JoinVertical tk lipgloss_Left (filter (\<lambda>c. TrimSpace tk c \<noteq> []) components)
      else render2x2Layout tk s components)
   \<and> render2x2Layout tk s [a, b, c, d] =
       JoinVertical tk lipgloss_Left
         [JoinHorizontal tk lipgloss_Top [a, '' '', b], [], JoinHorizontal tk lipgloss_Top [c, '' '', d]]
   \<and> IsSmallTerminal s = (StyleManager.width s < 80 \<or> StyleManager.height s < 24)
   \<and> IsSmallTerminal (SetDimensions s 79 24)
   \<and> IsSmallTerminal (SetDimensions s 80 23)
   \<and> IsSmallTerminal (SetDimensions s 60 20)
   \<and> \<not> IsSmallTerminal (SetDimensions s 80 24)
   \<and> \<not> IsSmallTerminal (SetDimensions s 120 40)"
  by (simp add: RenderResponsiveLayout_def renderVerticalLayout_def render2x2Layout_def
      IsSmallTerminal_def SetDimensions_def)

lemma MainModel_View_stored_sizes:
  "MainModel_View tk
     (m\<lparr>cpu := CPUModel_SetSize (cpu m) w1 h1, memory := MemoryModel_SetSize (memory m) w2 h2,
        disk := DiskModel_SetSize (disk m) w3 h3,
        network := NetworkModel_SetSize (network m) w4 h4\<rparr>)
   = MainModel_View tk m"
  by (simp add: MainModel_View_def Let_def CPUModel_SetSize_def
      MemoryModel_SetSize_def DiskModel_SetSize_def NetworkModel_SetSize_def renderHelp_def
      split: prod.splits cong: sum.case_cong)

lemma MainModel_Update_resize:
  "MainModel_Update m now (WindowSizeMsg w h) =
     Inr (updateComponentSizes
            (m\<lparr>MainModel.width := w, MainModel.height := h,
               MainModel.styleManager := SetDimensions (MainModel.styleManager m) w h\<rparr>),
          Batch [])"
  by (simp add: MainModel_Update_def Let_def)

text \<open>After a resize the style manager holds the new viewport, so the layout selector
  of the next view decides on it.\<close>

lemma resize_sets_layout_threshold:
  "MainModel.styleManager (updateComponentSizes m) = MainModel.styleManager m
   \<and> IsSmallTerminal (SetDimensions s w h) = (w < 80 \<or> h < 24)"
  by (simp add: updateComponentSizes_def Let_def IsSmallTerminal_def SetDimensions_def)

text \<open>
  Claim C8, as amended. For every viewport, however small, the panel size that
  \<open>CalculateComponentDimensions\<close> computes for the grid is at least 30 columns and 8
  rows, and it is the size every panel is rendered with: when the help screen is off and
  the four components render, \<open>MainModel.View\<close> is the header, the layout of the four
  bordered panels and the footer, where each panel is the view of its component set to
  that size, in a border of that size. The view therefore does not depend on the sizes
  the components hold, in particular not on those a resize event has stored.
\<close>

theorem rendered_panel_size_floor:
  assumes "CalculateComponentDimensions (MainModel.styleManager m) = (cw, ch)"
    and "\<not> showHelp m"
    and "CPUModel_View tk (CPUModel_SetSize (cpu m) cw ch) = Inr cpuContent"
    and "MemoryModel_View tk (MemoryModel_SetSize (memory m) cw ch) = Inr memoryContent"
    and "DiskModel_View tk (DiskModel_SetSize (disk m) cw ch) = Inr diskContent"
    and "NetworkModel_View tk (NetworkModel_SetSize (network m) cw ch) = Inr networkContent"
  shows "30 \<le> cw \<and> 8 \<le> ch
   \<and> MainModel_View tk m =
       Inr (JoinVertical tk lipgloss_Left
              [RenderApplicationHeader tk (MainModel.styleManager m) ''System Monitor'',
               [],
               RenderResponsiveLayout tk (MainModel.styleManager m)
                 [RenderComponentBorder tk (MainModel.styleManager m) cpuContent
                    (focused m = FocusCPU) cw ch,
                  RenderComponentBorder tk (MainModel.styleManager m) memoryContent
                    (focused m = FocusMemory) cw ch,
                  RenderComponentBorder tk (MainModel.styleManager m) diskContent
                    (focused m = FocusDisk) cw ch,
                  RenderComponentBorder tk (MainModel.styleManager m) networkContent
                    (focused m = FocusNetwork) cw ch],
               [],
               RenderApplicationFooter tk (MainModel.styleManager m)
                 [''q: quit'', ''arrows/tab: navigate'', ''r: refresh'', ''?: help'']])
   \<and> 30 \<le> fst (CalculateComponentDimensions s) \<and> 8 \<le> snd (CalculateComponentDimensions s)
   \<and> MainModel_View tk
        (m\<lparr>cpu := CPUModel_SetSize (cpu m) w1 h1, memory := MemoryModel_SetSize (memory m) w2 h2,
           disk := DiskModel_SetSize (disk m) w3 h3,
           network := NetworkModel_SetSize (network m) w4 h4\<rparr>)
      = MainModel_View tk m
   \<and> MainModel_Update m now (WindowSizeMsg w h) =
       Inr (updateComponentSizes
              (m\<lparr>MainModel.width := w, MainModel.height := h,
                 MainModel.styleManager := SetDimensions (MainModel.styleManager m) w h\<rparr>),
            Batch [])
   \<and> MainModel_View tk
        (updateComponentSizes
           (m\<lparr>MainModel.width := w, MainModel.height := h,
              MainModel.styleManager := SetDimensions (MainModel.styleManager m) w h\<rparr>))
      = MainModel_View tk
          (m\<lparr>MainModel.width := w, MainModel.height := h,
             MainModel.styleManager := SetDimensions (MainModel.styleManager m) w h\<rparr>)"
proof -
  have fl: "30 \<le> fst (CalculateComponentDimensions s') \<and> 8 \<le> snd (CalculateComponentDimensions s')"
    for s'
    by (simp add: CalculateComponentDimensions_def Let_def)
  from fl [of "MainModel.styleManager m"] assms(1) have c: "30 \<le> cw \<and> 8 \<le> ch" by simp
  have upd: "MainModel_View tk (updateComponentSizes m') = MainModel_View tk m'" for m'
    unfolding updateComponentSizes_def Let_def by (rule MainModel_View_stored_sizes)
  have v: "MainModel_View tk m =
       Inr (JoinVertical tk lipgloss_Left
              [RenderApplicationHeader tk (MainModel.styleManager m) ''System Monitor'',
               [],
               RenderResponsiveLayout tk (MainModel.styleManager m)
                 [RenderComponentBorder tk (MainModel.styleManager m) cpuContent
                    (focused m = FocusCPU) cw ch,
                  RenderComponentBorder tk (MainModel.styleManager m) memoryContent
                    (focused m = FocusMemory) cw ch,
                  RenderComponentBorder tk (MainModel.styleManager m) diskContent
                    (focused m = FocusDisk) cw ch,
                  RenderComponentBorder tk (MainModel.styleManager m) networkContent
                    (focused m = FocusNetwork) cw ch],
               [],
               RenderApplicationFooter tk (MainModel.styleManager m)
                 [''q: quit'', ''arrows/tab: navigate'', ''r: refresh'', ''?: help'']])"
    using assms by (simp add: MainModel_View_def Let_def)
  show ?thesis
    using c fl [of s] v by (simp add: MainModel_View_stored_sizes MainModel_Update_resize upd)
qed

theorem rendered_panel_size_floor_witness:
  "CalculateComponentDimensions (MainModel.styleManager smallViewportModel) = (30, 8)
   \<and> \<not> showHelp smallViewportModel
   \<and> CPUModel.width (cpu smallViewportModel) = 18
   \<and> CPUModel.height (cpu smallViewportModel) = 4
   \<and> CPUModel_View plainToolkit (CPUModel_SetSize (cpu smallViewportModel) 30 8)
       = Inr (''CPU Usage'' @ newline @ ''Loading CPU data...'')
   \<and> MemoryModel_View plainToolkit (MemoryModel_SetSize (memory smallViewportModel) 30 8)
       = Inr (''Memory Usage'' @ newline @ ''Loading memory data...'')
   \<and> DiskModel_View plainToolkit (DiskModel_SetSize (disk smallViewportModel) 30 8)
       = Inr (''Disk Usage'' @ newline @ ''Loading disk data...'')
   \<and> NetworkModel_View plainToolkit (NetworkModel_SetSize (network smallViewportModel) 30 8)
       = Inr (''Network Activity'' @ newline @ ''Loading network data...'')
   \<and> MainModel_View plainToolkit smallViewportModel =
       Inr (JoinVertical plainToolkit lipgloss_Left
              [RenderApplicationHeader plainToolkit (SetDimensions NewStyleManager 40 12)
                 ''System Monitor'',
               [],
               RenderResponsiveLayout plainToolkit (SetDimensions NewStyleManager 40 12)
                 [RenderComponentBorder plainToolkit (SetDimensions NewStyleManager 40 12)
                    (''CPU Usage'' @ newline @ ''Loading CPU data...'') True 30 8,
                  RenderComponentBorder plainToolkit (SetDimensions NewStyleManager 40 12)
                    (''Memory Usage'' @ newline @ ''Loading memory data...'') False 30 8,
                  RenderComponentBorder plainToolkit (SetDimensions NewStyleManager 40 12)
                    (''Disk Usage'' @ newline @ ''Loading disk data...'') False 30 8,
                  RenderComponentBorder plainToolkit (SetDimensions NewStyleManager 40 12)
                    (''Network Activity'' @ newline @ ''Loading network data...'') False 30 8],
               [],
               RenderApplicationFooter plainToolkit (SetDimensions NewStyleManager 40 12)
                 [''q: quit'', ''arrows/tab: navigate'', ''r: refresh'', ''?: help'']])"
proof -
  have sm: "MainModel.styleManager smallViewportModel = SetDimensions NewStyleManager 40 12"
    and sh: "\<not> showHelp smallViewportModel"
    and fo: "focused smallViewportModel = FocusCPU"
    and c: "cpu smallViewportModel = CPUModel_SetSize (NewCPUModel 0) 18 4"
    and me: "memory smallViewportModel = MemoryModel_SetSize (NewMemoryModel 0) 18 4"
    and d: "disk smallViewportModel = DiskModel_SetSize (NewDiskModel 0) 18 4"
    and n: "network smallViewportModel = NetworkModel_SetSize (NewNetworkModel 0) 18 4"
    by (simp_all add: smallViewportModel_def updateComponentSizes_def Let_def NewMainModel_def
        NewMainModelWithConfig_def wrap64_def quot_def)
  have dims: "CalculateComponentDimensions (MainModel.styleManager smallViewportModel) = (30, 8)"
    by (simp add: sm CalculateComponentDimensions_def SetDimensions_def NewStyleManager_def
        Let_def wrap64_def quot_def)
  have wh: "CPUModel.width (cpu smallViewportModel) = 18"
    "CPUModel.height (cpu smallViewportModel) = 4"
    by (simp_all add: c CPUModel_SetSize_def)
  have pl: "RenderPlaceholder plainToolkit s' t msg = t @ newline @ msg" for s' t msg
    by (simp add: RenderPlaceholder_def RenderHeader_def plainToolkit_def Let_def)
  have cv: "CPUModel_View plainToolkit (CPUModel_SetSize (cpu smallViewportModel) 30 8)
       = Inr (''CPU Usage'' @ newline @ ''Loading CPU data...'')"
    by (simp add: c CPUModel_View_def CPUModel_SetSize_def NewCPUModel_def Let_def pl
        del: append.simps)
  have mv: "MemoryModel_View plainToolkit (MemoryModel_SetSize (memory smallViewportModel) 30 8)
       = Inr (''Memory Usage'' @ newline @ ''Loading memory data...'')"
    by (simp add: me MemoryModel_View_def MemoryModel_SetSize_def NewMemoryModel_def Let_def pl
        del: append.simps)
  have dv: "DiskModel_View plainToolkit (DiskModel_SetSize (disk smallViewportModel) 30 8)
       = Inr (''Disk Usage'' @ newline @ ''Loading disk data...'')"
    by (simp add: d DiskModel_View_def DiskModel_SetSize_def NewDiskModel_def Let_def pl
        del: append.simps)
  have nv: "NetworkModel_View plainToolkit (NetworkModel_SetSize (network smallViewportModel) 30 8)
       = Inr (''Network Activity'' @ newline @ ''Loading network data...'')"
    by (simp add: n NetworkModel_View_def NetworkModel_SetSize_def NewNetworkModel_def Let_def pl
        del: append.simps)
  from rendered_panel_size_floor [OF dims sh cv mv dv nv]
  have "MainModel_View plainToolkit smallViewportModel =
       Inr (JoinVertical plainToolkit lipgloss_Left
              [RenderApplicationHeader plainToolkit (MainModel.styleManager smallViewportModel)
                 ''System Monitor'',
               [],
               RenderResponsiveLayout plainToolkit (MainModel.styleManager smallViewportModel)
                 [RenderComponentBorder plainToolkit (MainModel.styleManager smallViewportModel)
                    (''CPU Usage'' @ newline @ ''Loading CPU data...'')
                    (focused smallViewportModel = FocusCPU) 30 8,
                  RenderComponentBorder plainToolkit (MainModel.styleManager smallViewportModel)
                    (''Memory Usage'' @ newline @ ''Loading memory data...'')
                    (focused smallViewportModel = FocusMemory) 30 8,
                  RenderComponentBorder plainToolkit (MainModel.styleManager smallViewportModel)
                    (''Disk Usage'' @ newline @ ''Loading disk data...'')
                    (focused smallViewportModel = FocusDisk) 30 8,
                  RenderComponentBorder plainToolkit (MainModel.styleManager smallViewportModel)
                    (''Network Activity'' @ newline @ ''Loading network data...'')
                    (focused smallViewportModel = FocusNetwork) 30 8],
               [],
               RenderApplicationFooter plainToolkit (MainModel.styleManager smallViewportModel)
                 [''q: quit'', ''arrows/tab: navigate'', ''r: refresh'', ''?: help'']])"
    by blast
  then have v: "MainModel_View plainToolkit smallViewportModel =
       Inr (JoinVertical plainToolkit lipgloss_Left
              [RenderApplicationHeader plainToolkit (SetDimensions NewStyleManager 40 12)
                 ''System Monitor'',
               [],
               RenderResponsiveLayout plainToolkit (SetDimensions NewStyleManager 40 12)
                 [RenderComponentBorder plainToolkit (SetDimensions NewStyleManager 40 12)
                    (''CPU Usage'' @ newline @ ''Loading CPU data...'') True 30 8,
                  RenderComponentBorder plainToolkit (SetDimensions NewStyleManager 40 12)
                    (''Memory Usage'' @ newline @ ''Loading memory data...'') False 30 8,
                  RenderComponentBorder plainToolkit (SetDimensions NewStyleManager 40 12)
                    (''Disk Usage'' @ newline @ ''Loading disk data...'') False 30 8,
                  RenderComponentBorder plainToolkit (SetDimensions NewStyleManager 40 12)
                    (''Network Activity'' @ newline @ ''Loading network data...'') False 30 8],
               [],
               RenderApplicationFooter plainToolkit (SetDimensions NewStyleManager 40 12)
                 [''q: quit'', ''arrows/tab: navigate'', ''r: refresh'', ''?: help'']])"
    unfolding sm fo by simp
  show ?thesis
    using dims sh wh cv mv dv nv v by blast
qed

text \<open>
  The claim as it stands also covers the resize path. That path, \<open>updateComponentSizes\<close>,
  has no floor: a resize of the initial model to 40x12 stores the size 18x4 in the
  components, while \<open>CalculateComponentDimensions\<close> yields 30x8 for the same viewport.
\<close>

theorem resize_stores_sizes_below_floor:
  "MainModel_Update (NewMainModel 0 0) 1 (WindowSizeMsg 40 12) =
     Inr (updateComponentSizes
            ((NewMainModel 0 0)\<lparr>MainModel.width := 40, MainModel.height := 12,
               MainModel.styleManager := SetDimensions NewStyleManager 40 12\<rparr>),
          Batch [])
   \<and> CPUModel.width (cpu (updateComponentSizes
            ((NewMainModel 0 0)\<lparr>MainModel.width := 40, MainModel.height := 12,
               MainModel.styleManager := SetDimensions NewStyleManager 40 12\<rparr>))) = 18
   \<and> CPUModel.height (cpu (updateComponentSizes
            ((NewMainModel 0 0)\<lparr>MainModel.width := 40, MainModel.height := 12,
               MainModel.styleManager := SetDimensions NewStyleManager 40 12\<rparr>))) = 4
   \<and> DiskModel.width (disk (updateComponentSizes
            ((NewMainModel 0 0)\<lparr>MainModel.width := 40, MainModel.height := 12,
               MainModel.styleManager := SetDimensions NewStyleManager 40 12\<rparr>))) = 18
   \<and> DiskModel.height (disk (updateComponentSizes
            ((NewMainModel 0 0)\<lparr>MainModel.width := 40, MainModel.height := 12,
               MainModel.styleManager := SetDimensions NewStyleManager 40 12\<rparr>))) = 4
   \<and> CalculateComponentDimensions (SetDimensions NewStyleManager 40 12) = (30, 8)"
  by (simp add: MainModel_Update_resize NewMainModel_def NewMainModelWithConfig_def
      updateComponentSizes_def Let_def wrap64_def quot_def CPUModel_SetSize_def
      MemoryModel_SetSize_def DiskModel_SetSize_def NetworkModel_SetSize_def
      CalculateComponentDimensions_def SetDimensions_def NewStyleManager_def)

subsection \<open>Manual refresh\<close>

text \<open>
  Claim C9. A key that reaches the refresh case of the reducer (it is a refresh key and
  neither a quit key nor a help key) leaves the model as it is and issues the command
  \<open>collectAllDataCmd\<close>; a tick leaves the model as it is and issues the same
  \<open>collectAllDataCmd\<close> followed by the command that schedules the next tick. In both
  cases the collection commands run are the same four, on the same collector.
\<close>

theorem refresh_key_same_collection_as_tick:
  assumes "\<not> containsKey (KeyMap.Quit (keys m)) key"
    and "\<not> containsKey (Help (keys m)) key"
    and "containsKey (Refresh (keys m)) key"
  shows "MainModel_Update m now (KeyMsg key) = Inr (m, Batch [collectAllDataCmd m])
       \<and> MainModel_Update m now' (TickMsg t) = Inr (m, Batch [collectAllDataCmd m, tickCmd m])
       \<and> collectAllDataCmd m =
           Batch [CollectCPU (collector m), CollectMemory (collector m),
                  CollectDisk (collector m), CollectNetwork (collector m)]
       \<and> commandsOf (Batch [collectAllDataCmd m]) =
           [CollectCPU (collector m), CollectMemory (collector m),
            CollectDisk (collector m), CollectNetwork (collector m)]
       \<and> commandsOf (Batch [collectAllDataCmd m, tickCmd m]) =
           commandsOf (Batch [collectAllDataCmd m]) @ [Tick (updateInterval m)]"
  using assms
  by (simp add: MainModel_Update_def collectAllDataCmd_def collectCPUDataCmd_def
      collectMemoryDataCmd_def collectDiskDataCmd_def collectNetworkDataCmd_def tickCmd_def)

theorem refresh_key_same_collection_as_tick_witness:
  "\<not> containsKey (KeyMap.Quit (keys (NewMainModel 0 0))) ''r''
   \<and> \<not> containsKey (Help (keys (NewMainModel 0 0))) ''r''
   \<and> containsKey (Refresh (keys (NewMainModel 0 0))) ''r''
   \<and> MainModel_Update (NewMainModel 0 0) 5 (KeyMsg ''r'')
       = Inr (NewMainModel 0 0, Batch [Batch [CollectCPU 0, CollectMemory 0, CollectDisk 0, CollectNetwork 0]])
   \<and> MainModel_Update (NewMainModel 0 0) 5 (TickMsg 5)
       = Inr (NewMainModel 0 0,
              Batch [Batch [CollectCPU 0, CollectMemory 0, CollectDisk 0, CollectNetwork 0],
                     Tick 1000000000])"
proof -
  have k: "\<not> containsKey (KeyMap.Quit (keys (NewMainModel 0 0))) ''r''"
    "\<not> containsKey (Help (keys (NewMainModel 0 0))) ''r''"
    "containsKey (Refresh (keys (NewMainModel 0 0))) ''r''"
    by (simp_all add: NewMainModel_def NewMainModelWithConfig_def DefaultKeyMap_def)
  have c: "collector (NewMainModel 0 0) = 0" "updateInterval (NewMainModel 0 0) = 1000000000"
    by (simp_all add: NewMainModel_def NewMainModelWithConfig_def)
  show ?thesis
    using refresh_key_same_collection_as_tick [OF k, of 5 5 5] k
    by (simp add: c tickCmd_def)
qed

subsection \<open>CPU usage history\<close>

lemma appendUsage_length: "length (appendUsage hist maxH i us) = length hist"
  by (induction us arbitrary: hist i) (simp_all add: Let_def)

lemma appendUsage_nth:
  "j < length hist \<Longrightarrow>
   appendUsage hist maxH i us ! j =
     (if i \<le> j \<and> j < i + length us
      then (if int (length (hist ! j)) + 1 > maxH
            then drop 1 (hist ! j @ [us ! (j - i)])
            else hist ! j @ [us ! (j - i)])
      else hist ! j)"
proof (induction us arbitrary: hist i)
  case Nil
  then show ?case by auto
next
  case (Cons u us)
  let ?hist' = "(if i < length hist
        then (let h = hist ! i @ [u]
              in hist[i := (if int (length h) > maxH then drop 1 h else h)])
        else hist)"
  have len: "j < length ?hist'" using Cons.prems by (simp add: Let_def)
  have step: "appendUsage hist maxH i (u # us) ! j = appendUsage ?hist' maxH (Suc i) us ! j"
    by simp
  show ?case
  proof (cases "j = i")
    case True
    with Cons.prems Cons.IH [OF len, of "Suc i"] show ?thesis
      unfolding step by (simp add: Let_def)
  next
    case False
    then have "?hist' ! j = hist ! j" by (simp add: Let_def)
    with False Cons.prems Cons.IH [OF len, of "Suc i"] show ?thesis
      unfolding step by (auto simp add: Let_def nth_Cons')
  qed
qed

lemma appendUsage_bounded:
  assumes "0 \<le> maxH" and "\<forall>h\<in>set hist. int (length h) \<le> maxH"
  shows "\<forall>h\<in>set (appendUsage hist maxH i us). int (length h) \<le> maxH"
proof
  fix h assume "h \<in> set (appendUsage hist maxH i us)"
  then obtain j where j: "j < length hist" and h: "h = appendUsage hist maxH i us ! j"
    by (auto simp: in_set_conv_nth appendUsage_length)
  from j assms(2) have "int (length (hist ! j)) \<le> maxH" by simp
  with assms(1) j show "int (length h) \<le> maxH"
    unfolding h by (simp add: appendUsage_nth del: drop_append)
qed


lemma CPUModel_run_append:
  "CPUModel_run m (xs @ ys) =
     (case CPUModel_run m xs of Inl p \<Rightarrow> Inl p | Inr m' \<Rightarrow> CPUModel_run m' ys)"
  by (induction m xs rule: CPUModel_run.induct) (simp_all split: sum.splits)

lemma CPUModel_run_bounded:
  assumes "makeslice_ok (maxHistory m)"
    and "\<forall>h\<in>set (history m). int (length h) \<le> maxHistory m"
  shows "\<exists>m'. CPUModel_run m infos = Inr m' \<and> maxHistory m' = maxHistory m
           \<and> (\<forall>h\<in>set (history m'). int (length h) \<le> maxHistory m)"
  using assms
proof (induction infos arbitrary: m)
  case Nil
  then show ?case by simp
next
  case (Cons info infos)
  define m1 where "m1 = m\<lparr>CPUModel.hasError := False, CPUModel.errorMessage := [],
                  usage := Usage info, CPUModel.total := CPUInfo.Total info,
                  cores := Cores info, CPUModel.lastUpdate := CPUInfo.Timestamp info,
                  history :=
                    (if Usage info = [] then history m
                     else appendUsage
                            (if history m = [] then replicate (length (Usage info)) []
                             else history m)
                            (maxHistory m) 0 (Usage info))\<rparr>"
  have step: "CPUModel_Update m (CPUUpdateMsg info) = Inr (m1, CmdNil)"
    unfolding m1_def by (rule CPUModel_Update_success [OF Cons.prems(1)])
  have maxH: "maxHistory m1 = maxHistory m" by (simp add: m1_def)
  have nonneg: "0 \<le> maxHistory m" using Cons.prems(1) by (simp add: makeslice_ok_def)
  have "\<forall>h\<in>set (if history m = [] then replicate (length (Usage info)) [] else history m).
          int (length h) \<le> maxHistory m"
    using Cons.prems(2) nonneg by simp
  from appendUsage_bounded [OF nonneg this]
  have inv1: "\<forall>h\<in>set (history m1). int (length h) \<le> maxHistory m1"
    using Cons.prems(2) by (simp add: m1_def)
  from Cons.IH [of m1] Cons.prems(1) inv1 maxH show ?case
    by (simp add: step)
qed

lemma trim_drop:
  assumes "length xs = k"
  shows "(if int (length (drop (k - N) xs)) + 1 > int N
          then drop 1 (drop (k - N) xs @ [u])
          else drop (k - N) xs @ [u])
         = drop (Suc k - N) (xs @ [u])"
proof (cases "k < N")
  case True
  with assms show ?thesis by simp
next
  case False
  then have "Suc k - N = Suc (k - N)" by simp
  with False assms show ?thesis by (cases "N = 0") auto
qed


lemma CPUModel_run_contents:
  assumes ok: "makeslice_ok (maxHistory m)"
    and empty: "history m = []"
    and n: "0 < n"
  shows "(\<forall>info\<in>set infos. length (Usage info) = n) \<Longrightarrow>
         \<exists>m'. CPUModel_run m infos = Inr m' \<and> maxHistory m' = maxHistory m
           \<and> (infos = [] \<longrightarrow> history m' = [])
           \<and> (infos \<noteq> [] \<longrightarrow> length (history m') = n
                \<and> (\<forall>i<n. history m' ! i =
                      drop (length infos - nat (maxHistory m)) (map (\<lambda>info. Usage info ! i) infos)))"
proof (induction infos rule: rev_induct)
  case Nil
  show ?case by (simp add: empty)
next
  case (snoc x xs)
  from snoc obtain m1 where run1: "CPUModel_run m xs = Inr m1"
    and maxH: "maxHistory m1 = maxHistory m"
    and e1: "xs = [] \<longrightarrow> history m1 = []"
    and c1: "xs \<noteq> [] \<longrightarrow> length (history m1) = n
                \<and> (\<forall>i<n. history m1 ! i =
                      drop (length xs - nat (maxHistory m)) (map (\<lambda>info. Usage info ! i) xs))"
    by auto
  have ux: "length (Usage x) = n" "Usage x \<noteq> []" using snoc.prems n by auto
  have nonneg: "0 \<le> maxHistory m" using ok by (simp add: makeslice_ok_def)
  define N where "N = nat (maxHistory m)"
  have N: "maxHistory m = int N" using nonneg by (simp add: N_def)
  define hist0 where "hist0 = (if history m1 = [] then replicate n [] else history m1)"
  define m2 where "m2 = m1\<lparr>CPUModel.hasError := False, CPUModel.errorMessage := [],
                  usage := Usage x, CPUModel.total := CPUInfo.Total x,
                  cores := Cores x, CPUModel.lastUpdate := CPUInfo.Timestamp x,
                  history := appendUsage hist0 (maxHistory m) 0 (Usage x)\<rparr>"
  have step: "CPUModel_Update m1 (CPUUpdateMsg x) = Inr (m2, CmdNil)"
    using CPUModel_Update_success [of m1 x] ok maxH ux
    by (simp add: m2_def hist0_def)
  have run2: "CPUModel_run m (xs @ [x]) = Inr m2"
    by (simp add: CPUModel_run_append run1 step)
  have len0: "length hist0 = n"
    using e1 c1 n by (cases "xs = []") (auto simp: hist0_def)
  have h0: "hist0 ! i = drop (length xs - N) (map (\<lambda>info. Usage info ! i) xs)" if "i < n" for i
  proof (cases "xs = []")
    case True
    with e1 that show ?thesis by (simp add: hist0_def)
  next
    case False
    with c1 n have "history m1 \<noteq> []" by auto
    with c1 False that show ?thesis by (simp add: hist0_def N_def)
  qed
  have "history m2 ! i = drop (length (xs @ [x]) - N) (map (\<lambda>info. Usage info ! i) (xs @ [x]))"
    if "i < n" for i
  proof -
    let ?s = "map (\<lambda>info. Usage info ! i) xs"
    have "history m2 ! i =
            (if int (length (hist0 ! i)) + 1 > int N
             then drop 1 (hist0 ! i @ [Usage x ! i])
             else hist0 ! i @ [Usage x ! i])"
      using that len0 ux by (simp add: m2_def appendUsage_nth N)
    also have "\<dots> = drop (Suc (length xs) - N) (?s @ [Usage x ! i])"
      unfolding h0 [OF that] using trim_drop [of ?s "length xs" N "Usage x ! i"] by simp
    finally show ?thesis by simp
  qed
  moreover have "length (history m2) = n" by (simp add: m2_def appendUsage_length len0)
  moreover have "maxHistory m2 = maxHistory m" by (simp add: m2_def maxH)
  ultimately show ?case using run2 by (simp add: N_def)
qed


lemma NewCPUModel_history:
  "maxHistory (NewCPUModel now) = 60 \<and> history (NewCPUModel now) = []
   \<and> makeslice_ok (maxHistory (NewCPUModel now))"
  by (simp add: NewCPUModel_def makeslice_ok_def)

lemma CPUModel_Update_history_step:
  assumes "makeslice_ok (maxHistory m)" and "history m \<noteq> []"
    and "i < length (history m)" and "i < length (Usage info)"
  shows "\<exists>m1. CPUModel_Update m (CPUUpdateMsg info) = Inr (m1, CmdNil)
           \<and> history m1 ! i =
               (if int (length (history m ! i)) < maxHistory m
                then history m ! i @ [Usage info ! i]
                else drop 1 (history m ! i @ [Usage info ! i]))"
proof -
  from assms(4) have ne: "Usage info \<noteq> []" by auto
  show ?thesis
    using assms(2-4) ne
    by (auto simp add: CPUModel_Update_success [OF assms(1)] appendUsage_nth simp del: drop_append)
qed

text \<open>
  Claim C10. A new CPU model has \<open>maxHistory\<close> 60 and no history. From any CPU model whose
  \<open>maxHistory\<close> is a capacity that \<open>make\<close> accepts and whose history lists are no longer
  than \<open>maxHistory\<close>, any sequence of successful updates runs without a panic, keeps
  \<open>maxHistory\<close> and leaves every history list no longer than \<open>maxHistory\<close>. When the
  model starts without history and every sample reports the same positive number \<open>n\<close> of
  cores, there are \<open>n\<close> history lists afterwards and the list of core \<open>i\<close> holds the
  last \<open>maxHistory\<close> samples of that core (all of them while there are fewer), oldest
  first. A single update of a model with history appends the sample of core \<open>j\<close> to the
  list of core \<open>j\<close> and, when the list was already \<open>maxHistory\<close> long, drops its first
  entry.
\<close>

theorem cpu_history_bounded:
  assumes "makeslice_ok (maxHistory m)"
    and "\<forall>h\<in>set (history m). int (length h) \<le> maxHistory m"
  shows "maxHistory (NewCPUModel now) = 60 \<and> history (NewCPUModel now) = []
         \<and> (\<exists>m'. CPUModel_run m infos = Inr m' \<and> maxHistory m' = maxHistory m
           \<and> (\<forall>h\<in>set (history m'). int (length h) \<le> maxHistory m)
           \<and> (history m = [] \<and> infos \<noteq> [] \<and> 0 < n
                \<and> (\<forall>info\<in>set infos. length (Usage info) = n) \<longrightarrow>
                length (history m') = n
                \<and> (\<forall>i<n. history m' ! i =
                      drop (length infos - nat (maxHistory m))
                        (map (\<lambda>info. Usage info ! i) infos))))
         \<and> (history m \<noteq> [] \<and> j < length (history m) \<and> j < length (Usage info) \<longrightarrow>
              (\<exists>m1. CPUModel_Update m (CPUUpdateMsg info) = Inr (m1, CmdNil)
                 \<and> history m1 ! j =
                     (if int (length (history m ! j)) < maxHistory m
                      then history m ! j @ [Usage info ! j]
                      else drop 1 (history m ! j @ [Usage info ! j]))))"
proof -
  from CPUModel_run_bounded [OF assms, of infos] obtain m' where
    run: "CPUModel_run m infos = Inr m'" and maxH: "maxHistory m' = maxHistory m"
    and inv: "\<forall>h\<in>set (history m'). int (length h) \<le> maxHistory m"
    by blast
  have "length (history m') = n
        \<and> (\<forall>i<n. history m' ! i =
              drop (length infos - nat (maxHistory m)) (map (\<lambda>info. Usage info ! i) infos))"
    if "history m = []" "infos \<noteq> []" "0 < n" "\<forall>info\<in>set infos. length (Usage info) = n"
    using CPUModel_run_contents [OF assms(1) that(1,3,4)] that(2) run by auto
  with run maxH inv NewCPUModel_history [of now]
    CPUModel_Update_history_step [OF assms(1), of j info]
  show ?thesis by blast
qed

theorem cpu_history_bounded_witness:
  "makeslice_ok (maxHistory ((NewCPUModel 0)\<lparr>maxHistory := 2\<rparr>))
   \<and> history ((NewCPUModel 0)\<lparr>maxHistory := 2\<rparr>) = []
   \<and> (\<exists>m'. CPUModel_run ((NewCPUModel 0)\<lparr>maxHistory := 2\<rparr>)
         [\<lparr>Cores = 2, Usage = [10, 15], CPUInfo.Total = 12, CPUInfo.Timestamp = 1\<rparr>,
          \<lparr>Cores = 2, Usage = [20, 25], CPUInfo.Total = 22, CPUInfo.Timestamp = 2\<rparr>,
          \<lparr>Cores = 2, Usage = [30, 35], CPUInfo.Total = 32, CPUInfo.Timestamp = 3\<rparr>] = Inr m'
        \<and> history m' = [[20, 30], [25, 35]])
   \<and> (\<exists>m1. CPUModel_Update ((NewCPUModel 0)\<lparr>maxHistory := 2, history := [[1, 2], [3, 4]]\<rparr>)
         (CPUUpdateMsg \<lparr>Cores = 2, Usage = [5, 6], CPUInfo.Total = 5, CPUInfo.Timestamp = 1\<rparr>)
         = Inr (m1, CmdNil)
        \<and> history m1 ! 0 = [2, 5])"
proof -
  let ?m = "(NewCPUModel 0)\<lparr>maxHistory := 2\<rparr>"
  let ?infos = "[\<lparr>Cores = 2, Usage = [10, 15], CPUInfo.Total = 12, CPUInfo.Timestamp = 1\<rparr>,
          \<lparr>Cores = 2, Usage = [20, 25], CPUInfo.Total = 22, CPUInfo.Timestamp = 2\<rparr>,
          \<lparr>Cores = 2, Usage = [30::real, 35], CPUInfo.Total = 32, CPUInfo.Timestamp = 3\<rparr>]"
  have ok: "makeslice_ok (maxHistory ?m)" by (simp add: makeslice_ok_def)
  have e: "history ?m = []" by (simp add: NewCPUModel_def)
  have inv: "\<forall>h\<in>set (history ?m). int (length h) \<le> maxHistory ?m" by (simp add: e)
  have ne: "?infos \<noteq> []" and pos: "0 < (2::nat)"
    and same: "\<forall>info\<in>set ?infos. length (Usage info) = 2"
    by simp_all
  from cpu_history_bounded [OF ok inv, where infos = ?infos and n = 2 and now = 0] e ne pos same
  obtain m' where
    run: "CPUModel_run ?m ?infos = Inr m'"
    and c: "length (history m') = 2"
      "\<forall>i<2. history m' ! i = drop (length ?infos - nat (maxHistory ?m)) (map (\<lambda>info. Usage info ! i) ?infos)"
    by blast
  from c(2) have "history m' ! 0 = [20, 30]" "history m' ! 1 = [25, 35]" by simp_all
  with c(1) have full: "history m' = [[20, 30], [25, 35]]"
    by (simp add: list_eq_iff_nth_eq less_Suc_eq numeral_2_eq_2)
  let ?m2 = "(NewCPUModel 0)\<lparr>maxHistory := 2, history := [[1, 2], [3, 4]]\<rparr>"
  let ?info = "\<lparr>Cores = 2, Usage = [5::real, 6], CPUInfo.Total = 5, CPUInfo.Timestamp = 1\<rparr>"
  have ok2: "makeslice_ok (maxHistory ?m2)" by (simp add: makeslice_ok_def)
  have inv2: "\<forall>h\<in>set (history ?m2). int (length h) \<le> maxHistory ?m2" by simp
  have pre: "history ?m2 \<noteq> []" "0 < length (history ?m2)" "0 < length (Usage ?info)"
    by simp_all
  from cpu_history_bounded [OF ok2 inv2, where j = 0 and info = ?info and infos = "[]" and now = 0]
    pre
  obtain m1 where "CPUModel_Update ?m2 (CPUUpdateMsg ?info) = Inr (m1, CmdNil)"
    and "history m1 ! 0 =
           (if int (length (history ?m2 ! 0)) < maxHistory ?m2
            then history ?m2 ! 0 @ [Usage ?info ! 0]
            else drop 1 (history ?m2 ! 0 @ [Usage ?info ! 0]))"
    by blast
  then have "\<exists>m1. CPUModel_Update ?m2 (CPUUpdateMsg ?info) = Inr (m1, CmdNil)
        \<and> history m1 ! 0 = [2, 5]"
    by simp
  with ok e run full show ?thesis by simp
qed

subsection \<open>The view of a component in the error state\<close>

lemma CPUModel_View_error:
  assumes "CPUModel.hasError m"
  shows "CPUModel_View tk m =
     Inr (Join (padSections
                  [RenderHeader tk (CPUModel.styleManager m) ''CPU Usage'',
                   RenderErrorText tk (CPUModel.styleManager m) (''Error: '' @ CPUModel.errorMessage m),
                   RenderMutedText tk (CPUModel.styleManager m) ''CPU data unavailable'',
                   ''Total: N/A'', ''Cores: N/A'']
                  (CPUModel.height m)) newline)"
  using assms by (simp add: CPUModel_View_def Let_def)

lemma MemoryModel_View_error:
  assumes "MemoryModel.hasError m"
  shows "MemoryModel_View tk m =
     Inr (Join (padSections
                  [RenderHeader tk (MemoryModel.styleManager m) ''Memory Usage'',
                   RenderErrorText tk (MemoryModel.styleManager m) (''Error: '' @ MemoryModel.errorMessage m),
                   RenderMutedText tk (MemoryModel.styleManager m) ''Memory data unavailable'',
                   ''RAM: N/A'', ''Swap: N/A'']
                  (MemoryModel.height m)) newline)"
  using assms by (simp add: MemoryModel_View_def Let_def)

lemma DiskModel_View_error:
  assumes "DiskModel.hasError m"
  shows "DiskModel_View tk m =
     Inr (Join (padSections
                  [RenderHeader tk (DiskModel.styleManager m) ''Disk Usage'',
                   RenderErrorText tk (DiskModel.styleManager m) (''Error: '' @ DiskModel.errorMessage m),
                   RenderMutedText tk (DiskModel.styleManager m) ''Disk data unavailable'',
                   ''Filesystems: N/A'', ''Usage: N/A'']
                  (DiskModel.height m)) newline)"
  using assms by (simp add: DiskModel_View_def Let_def)

lemma NetworkModel_View_error:
  assumes "NetworkModel.hasError m"
  shows "NetworkModel_View tk m =
     Inr (Join (padSections
                  [RenderHeader tk (NetworkModel.styleManager m) ''Network Activity'',
                   RenderErrorText tk (NetworkModel.styleManager m) (''Error: '' @ NetworkModel.errorMessage m),
                   RenderMutedText tk (NetworkModel.styleManager m) ''Network data unavailable'',
                   ''Interfaces: N/A'', ''Activity: N/A'']
                  (NetworkModel.height m)) newline)"
  using assms by (simp add: NetworkModel_View_def Let_def)


text \<open>
  The handler of a message of type \<open>models.ErrorMsg\<close>. Such a message for a component
  returns the component with its stored data as they were (for the CPU model: usage,
  total, cores and history; for the memory model: total, used, available and swap; for
  the disk model: the filesystems; for the network model: interfaces, previous data and
  rates). The view of the component in that state is the header, the line \<open>Error: \<close>
  followed by the message, the line saying that the data are unavailable and two \<open>N/A\<close>
  lines, padded to the height of the component; it is the same view whatever the stored
  data are, and rendering it cannot panic.
\<close>

lemma ErrorMsg_keeps_data_and_view_falls_back:
  "(Component e = ''CPU'' \<longrightarrow>
      (\<exists>m1. CPUModel_Update cm (ErrorMsg e) = Inr (m1, CmdNil)
         \<and> usage m1 = usage cm \<and> CPUModel.total m1 = CPUModel.total cm
         \<and> cores m1 = cores cm \<and> history m1 = history cm
         \<and> CPUModel_View tk m1 =
             Inr (Join (padSections
                          [RenderHeader tk (CPUModel.styleManager cm) ''CPU Usage'',
                           RenderErrorText tk (CPUModel.styleManager cm) (''Error: '' @ Message e),
                           RenderMutedText tk (CPUModel.styleManager cm) ''CPU data unavailable'',
                           ''Total: N/A'', ''Cores: N/A'']
                          (CPUModel.height cm)) newline)
         \<and> (\<forall>u t c h. CPUModel_View tk (m1\<lparr>usage := u, CPUModel.total := t, cores := c,
                                             history := h\<rparr>) = CPUModel_View tk m1)))
   \<and> (Component e = ''Memory'' \<longrightarrow>
      (\<exists>m1. MemoryModel_Update mm (ErrorMsg e) = (m1, CmdNil)
         \<and> MemoryModel.total m1 = MemoryModel.total mm \<and> used m1 = used mm
         \<and> available m1 = available mm \<and> swap m1 = swap mm
         \<and> MemoryModel_View tk m1 =
             Inr (Join (padSections
                          [RenderHeader tk (MemoryModel.styleManager mm) ''Memory Usage'',
                           RenderErrorText tk (MemoryModel.styleManager mm) (''Error: '' @ Message e),
                           RenderMutedText tk (MemoryModel.styleManager mm) ''Memory data unavailable'',
                           ''RAM: N/A'', ''Swap: N/A'']
                          (MemoryModel.height mm)) newline)
         \<and> (\<forall>t u a sw. MemoryModel_View tk (m1\<lparr>MemoryModel.total := t, used := u,
                                                available := a, swap := sw\<rparr>)
                          = MemoryModel_View tk m1)))
   \<and> (Component e = ''Disk'' \<longrightarrow>
      (\<exists>m1. DiskModel_Update dm now (ErrorMsg e) = (m1, CmdNil)
         \<and> filesystems m1 = filesystems dm
         \<and> DiskModel_View tk m1 =
             Inr (Join (padSections
                          [RenderHeader tk (DiskModel.styleManager dm) ''Disk Usage'',
                           RenderErrorText tk (DiskModel.styleManager dm) (''Error: '' @ Message e),
                           RenderMutedText tk (DiskModel.styleManager dm) ''Disk data unavailable'',
                           ''Filesystems: N/A'', ''Usage: N/A'']
                          (DiskModel.height dm)) newline)
         \<and> (\<forall>fs. DiskModel_View tk (m1\<lparr>filesystems := fs\<rparr>) = DiskModel_View tk m1)))
   \<and> (Component e = ''Network'' \<longrightarrow>
      (\<exists>m1. NetworkModel_Update nm now (ErrorMsg e) = (m1, CmdNil)
         \<and> interfaces m1 = interfaces nm \<and> previousData m1 = previousData nm
         \<and> rates m1 = rates nm
         \<and> NetworkModel_View tk m1 =
             Inr (Join (padSections
                          [RenderHeader tk (NetworkModel.styleManager nm) ''Network Activity'',
                           RenderErrorText tk (NetworkModel.styleManager nm) (''Error: '' @ Message e),
                           RenderMutedText tk (NetworkModel.styleManager nm) ''Network data unavailable'',
                           ''Interfaces: N/A'', ''Activity: N/A'']
                          (NetworkModel.height nm)) newline)
         \<and> (\<forall>ifs pd rs. NetworkModel_View tk (m1\<lparr>interfaces := ifs, previousData := pd,
                                                 rates := rs\<rparr>)
                          = NetworkModel_View tk m1)))"
  by (simp add: CPUModel_Update_error MemoryModel_Update_error DiskModel_Update_error
      NetworkModel_Update_error CPUModel_View_error MemoryModel_View_error
      DiskModel_View_error NetworkModel_View_error)

lemma ErrorMsg_keeps_data_and_view_falls_back_example:
  "(\<exists>m1. CPUModel_Update
           ((NewCPUModel 0)\<lparr>usage := [30, 40], CPUModel.total := 35, cores := 2,
                             history := [[30], [40]]\<rparr>)
           (ErrorMsg \<lparr>Type = PermissionError, Message = ''denied'', Component = ''CPU'',
                      SystemError.Timestamp = 5, Original = None\<rparr>) = Inr (m1, CmdNil)
        \<and> usage m1 = [30, 40] \<and> CPUModel.total m1 = 35 \<and> cores m1 = 2
        \<and> history m1 = [[30], [40]]
        \<and> CPUModel_View plainToolkit m1 =
            Inr (Join [''CPU Usage'', ''Error: denied'', ''CPU data unavailable'',
                       ''Total: N/A'', ''Cores: N/A'', [], [], [], [], []] newline))
   \<and> (\<exists>m1. MemoryModel_Update
           ((NewMemoryModel 0)\<lparr>MemoryModel.total := 1000, used := 400, available := 600\<rparr>)
           (ErrorMsg \<lparr>Type = TemporaryError, Message = ''timeout'', Component = ''Memory'',
                      SystemError.Timestamp = 5, Original = None\<rparr>) = (m1, CmdNil)
        \<and> MemoryModel.total m1 = 1000 \<and> used m1 = 400 \<and> available m1 = 600
        \<and> MemoryModel_View plainToolkit m1 =
            Inr (Join [''Memory Usage'', ''Error: timeout'', ''Memory data unavailable'',
                       ''RAM: N/A'', ''Swap: N/A'', [], [], []] newline))
   \<and> (\<exists>m1. DiskModel_Update
           ((NewDiskModel 0)\<lparr>filesystems :=
              [\<lparr>Device = ''/dev/sda1'', Mountpoint = ''/'', Filesystem = ''ext4'',
                DiskInfo.Total = 1000, DiskInfo.Used = 950, DiskInfo.Available = 50,
                UsedPercent = 95\<rparr>]\<rparr>) 7
           (ErrorMsg \<lparr>Type = SystemAccessError, Message = ''gone'', Component = ''Disk'',
                      SystemError.Timestamp = 5, Original = None\<rparr>) = (m1, CmdNil)
        \<and> length (filesystems m1) = 1
        \<and> DiskModel_View plainToolkit m1 =
            Inr (Join [''Disk Usage'', ''Error: gone'', ''Disk data unavailable'',
                       ''Filesystems: N/A'', ''Usage: N/A'', [], [], [], [], []] newline))
   \<and> (\<exists>m1. NetworkModel_Update
           ((NewNetworkModel 0)\<lparr>interfaces :=
              [\<lparr>Interface = ''eth0'', BytesSent = 1000, BytesRecv = 2000, PacketsSent = 1,
                PacketsRecv = 2, NetworkInfo.Timestamp = 3\<rparr>]\<rparr>) 7
           (ErrorMsg \<lparr>Type = SystemAccessError, Message = ''down'', Component = ''Network'',
                      SystemError.Timestamp = 5, Original = None\<rparr>) = (m1, CmdNil)
        \<and> length (interfaces m1) = 1
        \<and> NetworkModel_View plainToolkit m1 =
            Inr (Join [''Network Activity'', ''Error: down'', ''Network data unavailable'',
                       ''Interfaces: N/A'', ''Activity: N/A'', [], [], [], [], []] newline))"
proof -
  let ?e = "\<lambda>c msg ty. \<lparr>Type = ty, Message = msg, Component = c,
                      SystemError.Timestamp = 5, Original = None\<rparr>"
  note t = ErrorMsg_keeps_data_and_view_falls_back [where tk = plainToolkit]
  have pad: "padSections [a, b, c, d, e] 10 = [a, b, c, d, e, [], [], [], [], []]"
    "padSections [a, b, c, d, e] 8 = [a, b, c, d, e, [], [], []]" for a b c d e :: string
    by (simp_all add: padSections_def eval_nat_numeral)
  have sty: "RenderHeader plainToolkit s x = x" "RenderErrorText plainToolkit s x = x"
    "RenderMutedText plainToolkit s x = x" for s x
    by (simp_all add: RenderHeader_def RenderErrorText_def RenderMutedText_def plainToolkit_def)
  show ?thesis
    using
      t [where e = "?e ''CPU'' ''denied'' PermissionError"
         and cm = "(NewCPUModel 0)\<lparr>usage := [30, 40], CPUModel.total := 35, cores := 2,
                             history := [[30], [40]]\<rparr>"]
      t [where e = "?e ''Memory'' ''timeout'' TemporaryError"
         and mm = "(NewMemoryModel 0)\<lparr>MemoryModel.total := 1000, used := 400, available := 600\<rparr>"]
      t [where e = "?e ''Disk'' ''gone'' SystemAccessError" and now = 7
         and dm = "(NewDiskModel 0)\<lparr>filesystems :=
              [\<lparr>Device = ''/dev/sda1'', Mountpoint = ''/'', Filesystem = ''ext4'',
                DiskInfo.Total = 1000, DiskInfo.Used = 950, DiskInfo.Available = 50,
                UsedPercent = 95\<rparr>]\<rparr>"]
      t [where e = "?e ''Network'' ''down'' SystemAccessError" and now = 7
         and nm = "(NewNetworkModel 0)\<lparr>interfaces :=
              [\<lparr>Interface = ''eth0'', BytesSent = 1000, BytesRecv = 2000, PacketsSent = 1,
                PacketsRecv = 2, NetworkInfo.Timestamp = 3\<rparr>]\<rparr>"]
    by (auto simp add: pad sty NewCPUModel_def NewMemoryModel_def NewDiskModel_def
        NewNetworkModel_def simp del: Join.simps)
qed

subsection \<open>A failed sample\<close>

text \<open>
  Claim C4. The claim describes the handler of \<open>models.ErrorMsg\<close> above, but a failed
  sample does not reach that handler. The command that samples a component returns the
  error of the collector itself as its message (\<open>return err\<close>), a \<open>models.SystemError\<close>;
  no case of \<open>MainModel.Update\<close> and no case of the \<open>Update\<close> of a component selects a
  message of that type. A failed sample therefore leaves the whole model as it is: the
  stored data are kept, but the component does not enter the error state, and its view
  remains the normal display of the numbers stored last, without an error line or
  placeholders.

  For instance, after a successful CPU sample (two cores at 30 and 40 percent, 35 in
  total) and then a failed one, the CPU model holds the sample with \<open>hasError\<close> false, and
  its view is the header, the total line formatted from 35 and the two core lines
  formatted from 30 and 40.
\<close>

theorem failed_sample_is_ignored:
  "MainModel_Update m now (collectCPUDataMsg (Inl err)) = Inr (m, Batch [])
   \<and> MainModel_Update m now (collectMemoryDataMsg (Inl err)) = Inr (m, Batch [])
   \<and> MainModel_Update m now (collectDiskDataMsg (Inl err)) = Inr (m, Batch [])
   \<and> MainModel_Update m now (collectNetworkDataMsg (Inl err)) = Inr (m, Batch [])
   \<and> CPUModel_Update cm (collectCPUDataMsg (Inl err)) = Inr (cm, CmdNil)
   \<and> MemoryModel_Update mm (collectMemoryDataMsg (Inl err)) = (mm, CmdNil)
   \<and> DiskModel_Update dm now (collectDiskDataMsg (Inl err)) = (dm, CmdNil)
   \<and> NetworkModel_Update nm now (collectNetworkDataMsg (Inl err)) = (nm, CmdNil)
   \<and> MainModel_run (NewMainModel 0 0)
        [(1, collectCPUDataMsg
               (Inr \<lparr>Cores = 2, Usage = [30, 40], CPUInfo.Total = 35, CPUInfo.Timestamp = 1\<rparr>)),
         (2, collectCPUDataMsg
               (Inl \<lparr>Type = SystemAccessError,
                     Message = ''Failed to collect per-core CPU usage'', Component = ''CPU'',
                     SystemError.Timestamp = 2, Original = Some ''unavailable''\<rparr>))]
       = Inr ((NewMainModel 0 0)
               \<lparr>cpu := (NewCPUModel 0)
                  \<lparr>usage := [30, 40], history := [[30], [40]], CPUModel.total := 35, cores := 2,
                   CPUModel.lastUpdate := 1\<rparr>\<rparr>)
   \<and> \<not> CPUModel.hasError
          ((NewCPUModel 0)
             \<lparr>usage := [30, 40], history := [[30], [40]], CPUModel.total := 35, cores := 2,
              CPUModel.lastUpdate := 1\<rparr>)
   \<and> CPUModel_View tk
        ((NewCPUModel 0)
           \<lparr>usage := [30, 40], history := [[30], [40]], CPUModel.total := 35, cores := 2,
            CPUModel.lastUpdate := 1\<rparr>)
       = Inr (Join [RenderHeader tk NewStyleManager ''CPU Usage'',
                    Sprintf tk ''Total: %s %.1f%%''
                      [ArgS (Render tk [Foreground ''2'']
                               (concat (replicate 7 fullBlock) @ concat (replicate 15 lightShade))),
                       ArgF 35],
                    Sprintf tk ''Core %d: %s %.1f%%''
                      [ArgI 1,
                       ArgS (Render tk [Foreground ''2'']
                               (concat (replicate 6 fullBlock) @ concat (replicate 14 lightShade))),
                       ArgF 30],
                    Sprintf tk ''Core %d: %s %.1f%%''
                      [ArgI 2,
                       ArgS (Render tk [Foreground ''2'']
                               (concat (replicate 8 fullBlock) @ concat (replicate 12 lightShade))),
                       ArgF 40],
                    [], [], [], [], [], []] newline)"
proof -
  have u: "MainModel_Update m now (SystemErrorMsg err) = Inr (m, Batch [])" for m now
    by (simp add: MainModel_Update_def)
  have run: "MainModel_run (NewMainModel 0 0)
        [(1, CPUUpdateMsg \<lparr>Cores = 2, Usage = [30, 40], CPUInfo.Total = 35, CPUInfo.Timestamp = 1\<rparr>),
         (2, SystemErrorMsg e)]
       = Inr ((NewMainModel 0 0)
               \<lparr>cpu := (NewCPUModel 0)
                  \<lparr>usage := [30, 40], history := [[30], [40]], CPUModel.total := 35, cores := 2,
                   CPUModel.lastUpdate := 1\<rparr>\<rparr>)" for e
    by (simp add: MainModel_Update_def CPUModel_Update_def NewMainModel_def
        NewMainModelWithConfig_def NewCPUModel_def makeslice_ok_def Let_def)
  have pad: "padSections [a, b, c, d] 10 = [a, b, c, d, [], [], [], [], [], []]"
    for a b c d :: string
    by (simp add: padSections_def eval_nat_numeral)
  have w: "GetProgressBarWidth NewStyleManager 40 8 = 22" "GetProgressBarWidth NewStyleManager 40 10 = 20"
    by (simp_all add: GetProgressBarWidth_def Let_def wrap64_def)
  have f: "float_to_int (fmul (fdiv 35 100) (float64_of_int 22)) = 7"
    "float_to_int (fmul (fdiv 30 100) (float64_of_int 20)) = 6"
    "float_to_int (fmul (fdiv 40 100) (float64_of_int 20)) = 8"
    by (simp_all add: float_to_int_def fmul_def fdiv_def float64_of_int_def f64_eval)
  have rp: "Repeat fullBlock 7 = Inr (concat (replicate 7 fullBlock))"
    "Repeat lightShade 15 = Inr (concat (replicate 15 lightShade))"
    "Repeat fullBlock 6 = Inr (concat (replicate 6 fullBlock))"
    "Repeat lightShade 14 = Inr (concat (replicate 14 lightShade))"
    "Repeat fullBlock 8 = Inr (concat (replicate 8 fullBlock))"
    "Repeat lightShade 12 = Inr (concat (replicate 12 lightShade))"
    by (simp_all add: Repeat_def fullBlock_def lightShade_def)
  have col: "GetUsageColor NewStyleManager 35 = ''2''" "GetUsageColor NewStyleManager 30 = ''2''"
    "GetUsageColor NewStyleManager 40 = ''2''"
    by (simp_all add: GetUsageColor_def NewStyleManager_def DefaultColorScheme_def)
  have bar: "RenderProgressBar tk NewStyleManager 35 22 False
               = Inr (Render tk [Foreground ''2'']
                        (concat (replicate 7 fullBlock) @ concat (replicate 15 lightShade)))"
    "RenderProgressBar tk NewStyleManager 30 20 False
               = Inr (Render tk [Foreground ''2'']
                        (concat (replicate 6 fullBlock) @ concat (replicate 14 lightShade)))"
    "RenderProgressBar tk NewStyleManager 40 20 False
               = Inr (Render tk [Foreground ''2'']
                        (concat (replicate 8 fullBlock) @ concat (replicate 12 lightShade)))"
    by (simp_all add: RenderProgressBar_def Let_def f rp wrap64_def col
        del: replicate.simps concat.simps)
  have view: "CPUModel_View tk
        ((NewCPUModel 0)
           \<lparr>usage := [30, 40], history := [[30], [40]], CPUModel.total := 35, cores := 2,
            CPUModel.lastUpdate := 1\<rparr>)
       = Inr (Join [RenderHeader tk NewStyleManager ''CPU Usage'',
                    Sprintf tk ''Total: %s %.1f%%''
                      [ArgS (Render tk [Foreground ''2'']
                               (concat (replicate 7 fullBlock) @ concat (replicate 15 lightShade))),
                       ArgF 35],
                    Sprintf tk ''Core %d: %s %.1f%%''
                      [ArgI 1,
                       ArgS (Render tk [Foreground ''2'']
                               (concat (replicate 6 fullBlock) @ concat (replicate 14 lightShade))),
                       ArgF 30],
                    Sprintf tk ''Core %d: %s %.1f%%''
                      [ArgI 2,
                       ArgS (Render tk [Foreground ''2'']
                               (concat (replicate 8 fullBlock) @ concat (replicate 12 lightShade))),
                       ArgF 40],
                    [], [], [], [], [], []] newline)"
    by (simp add: CPUModel_View_def NewCPUModel_def Let_def w bar pad
        del: Join.simps replicate.simps concat.simps)
  have ne: "\<not> CPUModel.hasError
          ((NewCPUModel 0)
             \<lparr>usage := [30, 40], history := [[30], [40]], CPUModel.total := 35, cores := 2,
              CPUModel.lastUpdate := 1\<rparr>)"
    by (simp add: NewCPUModel_def)
  have msgs: "collectCPUDataMsg (Inl e) = SystemErrorMsg e"
    "collectMemoryDataMsg (Inl e) = SystemErrorMsg e"
    "collectDiskDataMsg (Inl e) = SystemErrorMsg e"
    "collectNetworkDataMsg (Inl e) = SystemErrorMsg e"
    "collectCPUDataMsg (Inr i) = CPUUpdateMsg i" for e i
    by (simp_all add: collectCPUDataMsg_def collectMemoryDataMsg_def collectDiskDataMsg_def
        collectNetworkDataMsg_def)
  have comp: "CPUModel_Update cm (SystemErrorMsg err) = Inr (cm, CmdNil)"
    "MemoryModel_Update mm (SystemErrorMsg err) = (mm, CmdNil)"
    "DiskModel_Update dm now (SystemErrorMsg err) = (dm, CmdNil)"
    "NetworkModel_Update nm now (SystemErrorMsg err) = (nm, CmdNil)"
    by (simp_all add: CPUModel_Update_def MemoryModel_Update_def
        DiskModel_Update_def NetworkModel_Update_def)
  show ?thesis
    unfolding msgs using u run view ne comp by blast
qed

end
